theory Spec2Isabelle
  imports Complex_Main
begin

section \<open>Data model\<close>

text \<open>
  The program (\<^verbatim>\<open>appy16.py\<close>) works on pandas data frames. A cell of a frame is
  a missing value (\<open>NaN\<close>), a number, or a text. Numbers are modelled as reals (the
  finite values of a float64 or an int64); text is modelled as the UTF-8 bytes of the
  Python string, so that equality of texts is equality of Python strings.
\<close>

datatype cell = NaN | Num real | Text string

type_synonym row = "cell list"

text \<open>
  A frame with column labels. After \<^verbatim>\<open>df_data.columns = df_data.iloc[0]\<close> the labels
  are cells of the sheet, so a label is a \<open>cell\<close>. A frame read with
  \<^verbatim>\<open>header=None\<close> has positional labels only and is a plain list of rows, indexed
  from 0 (a \<^verbatim>\<open>RangeIndex\<close>).
\<close>

record frame =
  columns :: "cell list"
  rows :: "row list"

text \<open>
  The pandas primitives the program calls but does not define are parameters of the
  model: the two file parsers (\<open>None\<close> when the parser raises), the text of a number
  under \<^verbatim>\<open>astype(str)\<close>, and the numeric parser behind
  \<^verbatim>\<open>pd.to_numeric(..., errors='coerce')\<close> (\<open>None\<close> when the text is not a number).
\<close>

record 'f pandas =
  read_excel :: "'f \<Rightarrow> row list option"
  read_csv :: "'f \<Rightarrow> frame option"
  str_num :: "real \<Rightarrow> string"
  parse_num :: "string \<Rightarrow> real option"

text \<open>\<^verbatim>\<open>st.session_state\<close>: both entries start as \<^verbatim>\<open>None\<close>.\<close>

record session_state =
  original_data :: "frame option"
  header_rows :: "row list option"

definition initial_state :: session_state where
  "initial_state = \<lparr>original_data = None, header_rows = None\<rparr>"

text \<open>The text \<^verbatim>\<open>'Pr\<close>e-acute\<^verbatim>\<open>nom'\<close>, in UTF-8.\<close>

definition Prenom :: string where
  "Prenom = ''Pr'' @ [CHR 0xC3, CHR 0xA9] @ ''nom''"

section \<open>Header Locator\<close>

text \<open>\<^verbatim>\<open>row.astype(str)\<close>, on one cell.\<close>

fun astype_str :: "'f pandas \<Rightarrow> cell \<Rightarrow> string" where
  "astype_str pd NaN = ''nan''"
| "astype_str pd (Num x) = str_num pd x"
| "astype_str pd (Text s) = s"

text \<open>\<^verbatim>\<open>all(term in row.astype(str).values for term in required_terms)\<close>\<close>

definition row_has_terms :: "'f pandas \<Rightarrow> row \<Rightarrow> string list \<Rightarrow> bool" where
  "row_has_terms pd r required_terms =
     list_all (\<lambda>term. term \<in> set (map (astype_str pd) r)) required_terms"

text \<open>
  \<^verbatim>\<open>for index, row in df.iterrows(): if all(...): return index\<close>, then
  \<^verbatim>\<open>return None\<close>. The first argument is the index of the head of the rows still
  to visit.
\<close>

fun iterrows_find :: "'f pandas \<Rightarrow> nat \<Rightarrow> row list \<Rightarrow> string list \<Rightarrow> nat option" where
  "iterrows_find pd i [] required_terms = None"
| "iterrows_find pd i (r # rest) required_terms =
     (if row_has_terms pd r required_terms then Some i
      else iterrows_find pd (Suc i) rest required_terms)"

definition find_header_row :: "'f pandas \<Rightarrow> row list \<Rightarrow> string list \<Rightarrow> nat option" where
  "find_header_row pd df required_terms = iterrows_find pd 0 df required_terms"

definition required_terms :: "string list" where
  "required_terms = [''Code'', ''Nom'', Prenom]"

section \<open>Frame primitives\<close>

text \<open>
  A pandas frame is rectangular. The model reads a cell beyond the end of a short row
  as missing, which is the value pandas stores there.
\<close>

definition cell_at :: "row \<Rightarrow> nat \<Rightarrow> cell" where
  "cell_at r j = (if j < length r then r ! j else NaN)"

definition pad :: "nat \<Rightarrow> row \<Rightarrow> row" where
  "pad w r = r @ replicate (w - length r) NaN"

definition column_values :: "frame \<Rightarrow> nat \<Rightarrow> cell list" where
  "column_values f j = map (\<lambda>r. cell_at r j) (rows f)"

text \<open>The positions of a label among the column labels.\<close>

definition label_positions :: "cell \<Rightarrow> cell list \<Rightarrow> nat list" where
  "label_positions l cols = filter (\<lambda>j. cols ! j = l) [0..<length cols]"

text \<open>
  \<^verbatim>\<open>df[label]\<close> where a Series is needed: the label must name exactly one column.
  With no such column pandas raises \<^verbatim>\<open>KeyError\<close>; with several, \<^verbatim>\<open>df[label]\<close>
  is a DataFrame, on which \<^verbatim>\<open>pd.to_numeric\<close> raises \<^verbatim>\<open>TypeError\<close> and
  \<^verbatim>\<open>merge\<close> raises \<^verbatim>\<open>ValueError\<close>. \<open>None\<close> stands for the exception.
\<close>

definition series_position :: "cell \<Rightarrow> cell list \<Rightarrow> nat option" where
  "series_position l cols =
     (case label_positions l cols of [] \<Rightarrow> None | j # js \<Rightarrow> (if js = [] then Some j else None))"

text \<open>
  The values that \<^verbatim>\<open>set(df[label])\<close> iterates over: the column's values for a
  Series, the column labels for a DataFrame (several columns of that label), and
  \<^verbatim>\<open>KeyError\<close> (\<open>None\<close>) when there is no such column.
\<close>

definition iter_getitem :: "frame \<Rightarrow> cell \<Rightarrow> cell list option" where
  "iter_getitem f l =
     (case label_positions l (columns f) of
        [] \<Rightarrow> None
      | j # js \<Rightarrow> (if js = [] then Some (column_values f j) else Some (map (\<lambda>_. l) (j # js))))"

text \<open>\<^verbatim>\<open>DataFrame.empty\<close>: some axis has length 0.\<close>

definition empty :: "frame \<Rightarrow> bool" where
  "empty f = (columns f = [] \<or> rows f = [])"

text \<open>The same for a frame without labels: no row, or no column.\<close>

definition raw_empty :: "row list \<Rightarrow> bool" where
  "raw_empty rs = (rs = [] \<or> list_all (\<lambda>r. r = []) rs)"

fun isna :: "cell \<Rightarrow> bool" where
  "isna NaN = True"
| "isna (Num x) = False"
| "isna (Text s) = False"

text \<open>
  \<^verbatim>\<open>pd.to_numeric(..., errors='coerce')\<close> on one value: a number stays, a missing
  value stays missing, a text is parsed and becomes missing when it is not a number.
\<close>

fun to_numeric :: "'f pandas \<Rightarrow> cell \<Rightarrow> cell" where
  "to_numeric pd NaN = NaN"
| "to_numeric pd (Num x) = Num x"
| "to_numeric pd (Text s) = (case parse_num pd s of None \<Rightarrow> NaN | Some x \<Rightarrow> Num x)"

text \<open>\<^verbatim>\<open>df[label] = pd.to_numeric(df[label], errors='coerce')\<close>, for the column at \<open>j\<close>.\<close>

definition coerce_column :: "'f pandas \<Rightarrow> nat \<Rightarrow> frame \<Rightarrow> frame" where
  "coerce_column pd j f = f\<lparr>rows := map (\<lambda>r. r[j := to_numeric pd (cell_at r j)]) (rows f)\<rparr>"

text \<open>\<^verbatim>\<open>series < 0\<close> and \<^verbatim>\<open>series > 20\<close> on one value: a comparison with a
  missing value is false.\<close>

fun lt_num :: "cell \<Rightarrow> real \<Rightarrow> bool" where
  "lt_num (Num x) b = (x < b)"
| "lt_num NaN b = False"
| "lt_num (Text s) b = False"

fun gt_num :: "cell \<Rightarrow> real \<Rightarrow> bool" where
  "gt_num (Num x) b = (x > b)"
| "gt_num NaN b = False"
| "gt_num (Text s) b = False"

section \<open>Messages\<close>

text \<open>
  What the program shows with \<^verbatim>\<open>st.error\<close> and \<^verbatim>\<open>st.warning\<close>, one constructor
  for each message of the source; the text of a caught exception is left out.
  \<^item> \<open>Error_header_not_found\<close>: \<^verbatim>\<open>st.error("La ligne contenant 'Code', 'Nom' et ... n'a pas ...")\<close>
  \<^item> \<open>Error_empty_excel\<close>: \<^verbatim>\<open>st.error("Fichier Excel vide ...")\<close>
  \<^item> \<open>Error_excel_exception\<close>: \<^verbatim>\<open>st.error(f"Erreur lors du traitement Excel : {str(e)}")\<close>
  \<^item> \<open>Warning_invalid_codes n\<close>: \<^verbatim>\<open>st.warning(f"{len(invalid_codes)} codes ... invalides ...")\<close>
  \<^item> \<open>Error_missing_columns cs\<close>: \<^verbatim>\<open>st.error(f"Colonnes manquantes : {', '.join(missing_columns)}")\<close>
  \<^item> \<open>Error_csv_exception\<close>: \<^verbatim>\<open>st.error(f"Erreur lors du traitement CSV : {str(e)}")\<close>
  \<^item> \<open>Error_final_exception\<close>: \<^verbatim>\<open>st.error(f"Erreur lors de la ... du fichier final : {str(e)}")\<close>
  \<^item> \<open>Warning_excel_first\<close>: \<^verbatim>\<open>st.warning("Veuillez d'abord traiter le fichier Excel dans l'onglet 1")\<close>
\<close>

datatype message =
    Error_header_not_found
  | Error_empty_excel
  | Error_excel_exception
  | Warning_invalid_codes nat
  | Error_missing_columns "string list"
  | Error_csv_exception
  | Error_final_exception
  | Warning_excel_first

text \<open>
  The entries of the list \<^verbatim>\<open>anomalies\<close>, in the order of the source:
  \<^item> \<open>Missing_notes n\<close>: \<^verbatim>\<open>f"{df['Note'].isna().sum()} notes manquantes"\<close>
  \<^item> \<open>Notes_out_of_range\<close>: \<^verbatim>\<open>"Notes hors intervalle [0-20]"\<close>
  \<^item> \<open>Invalid_codes n\<close>: \<^verbatim>\<open>f"{df['A:Code'].isna().sum()} codes ... invalides"\<close>
  \<^item> \<open>Absent_from_csv n\<close>: \<^verbatim>\<open>f"{len(missing_codes)} ... de l'Excel non ... dans le CSV"\<close>
\<close>

datatype anomaly =
    Missing_notes nat
  | Notes_out_of_range
  | Invalid_codes nat
  | Absent_from_csv nat

section \<open>Roster Normalizer\<close>

text \<open>\<^verbatim>\<open>df_data.rename(columns={'Code': 'A:Code'}, inplace=True)\<close>\<close>

definition rename_code :: "cell list \<Rightarrow> cell list" where
  "rename_code cols = map (\<lambda>c. if c = Text ''Code'' then Text ''A:Code'' else c) cols"

text \<open>
  \<^verbatim>\<open>process_excel(file)\<close>. The result is the new session state, the messages shown,
  and the returned pair, \<open>None\<close> standing for \<^verbatim>\<open>(None, None)\<close>. Every exception
  raised inside the \<^verbatim>\<open>try\<close> block ends in the \<^verbatim>\<open>except\<close> branch: the parser
  raising, \<^verbatim>\<open>df_data.iloc[0]\<close> on a frame without rows (\<^verbatim>\<open>IndexError\<close>), and
  \<^verbatim>\<open>pd.to_numeric\<close> on \<^verbatim>\<open>df_data['A:Code']\<close> when several columns have that label.
\<close>

definition process_excel ::
  "'f pandas \<Rightarrow> session_state \<Rightarrow> 'f \<Rightarrow> session_state \<times> message list \<times> (frame \<times> row list) option"
where
  "process_excel pd st file =
     (case read_excel pd file of
        None \<Rightarrow> (st, [Error_excel_exception], None)
      | Some df \<Rightarrow>
          (case find_header_row pd df required_terms of
             None \<Rightarrow> (st, [Error_header_not_found], None)
           | Some header_row_index \<Rightarrow>
               (let rows_before_header = take header_row_index df in
                case drop header_row_index df of
                  [] \<Rightarrow> (st, [Error_excel_exception], None)
                | first_row # data \<Rightarrow>
                    (let df_data = \<lparr>columns = rename_code first_row, rows = data\<rparr> in
                     if empty df_data then (st, [Error_empty_excel], None)
                     else
                       (case series_position (Text ''A:Code'') (columns df_data) of
                          None \<Rightarrow> (st, [Error_excel_exception], None)
                        | Some j \<Rightarrow>
                            (let df_data = coerce_column pd j df_data;
                                 invalid_codes = filter (\<lambda>r. isna (cell_at r j)) (rows df_data)
                             in (st\<lparr>original_data := Some df_data,
                                     header_rows := Some rows_before_header\<rparr>,
                                 (if invalid_codes \<noteq> []
                                  then [Warning_invalid_codes (length invalid_codes)] else []),
                                 Some (df_data, rows_before_header))))))))"

section \<open>Grade File Validator\<close>

definition required_columns :: "string list" where
  "required_columns = [''A:Code'', ''Nom'', Prenom, ''Note'']"

text \<open>
  Python's \<^verbatim>\<open>==\<close> between two values taken out of numeric columns: a missing value
  is a float NaN, which equals nothing, itself included.
\<close>

fun py_eq :: "cell \<Rightarrow> cell \<Rightarrow> bool" where
  "py_eq (Num a) (Num b) = (a = b)"
| "py_eq (Text a) (Text b) = (a = b)"
| "py_eq (Num a) (Text b) = False"
| "py_eq (Text a) (Num b) = False"
| "py_eq NaN y = False"
| "py_eq x NaN = False"

text \<open>
  \<^verbatim>\<open>set(series)\<close>: the values are added one by one, and a value is added unless
  it equals one already there. Iterating over a float column makes a new float object
  for every entry, so no two missing values are the same object and each of them is
  added. The set is modelled by the list of its elements.
\<close>

definition py_in :: "cell \<Rightarrow> cell list \<Rightarrow> bool" where
  "py_in x s = list_ex (py_eq x) s"

fun set_add_all :: "cell list \<Rightarrow> cell list \<Rightarrow> cell list" where
  "set_add_all s [] = s"
| "set_add_all s (x # xs) = set_add_all (if py_in x s then s else s @ [x]) xs"

definition py_set :: "cell list \<Rightarrow> cell list" where
  "py_set xs = set_add_all [] xs"

text \<open>\<^verbatim>\<open>a - b\<close> on sets.\<close>

definition py_diff :: "cell list \<Rightarrow> cell list \<Rightarrow> cell list" where
  "py_diff a b = filter (\<lambda>x. \<not> py_in x b) a"

text \<open>\<^verbatim>\<open>series.dropna()\<close>\<close>

definition dropna :: "cell list \<Rightarrow> cell list" where
  "dropna xs = filter (\<lambda>x. \<not> isna x) xs"

text \<open>
  Check 4 of \<^verbatim>\<open>process_csv\<close>, on the coerced identifier column of the grade file.
  \<open>None\<close> stands for the \<^verbatim>\<open>KeyError\<close> of a stored roster without the column.
\<close>

definition check_original :: "session_state \<Rightarrow> cell list \<Rightarrow> anomaly list option" where
  "check_original st code =
     (case original_data st of
        None \<Rightarrow> Some []
      | Some original \<Rightarrow>
          (case iter_getitem original (Text ''A:Code'') of
             None \<Rightarrow> None
           | Some values \<Rightarrow>
               (let original_codes = py_set values;
                    csv_codes = py_set (dropna code);
                    missing_codes = py_diff original_codes csv_codes
                in Some (if missing_codes \<noteq> [] then [Absent_from_csv (length missing_codes)]
                         else []))))"

text \<open>Checks 1 to 3, on the coerced score and identifier columns.\<close>

definition check_columns :: "cell list \<Rightarrow> cell list \<Rightarrow> anomaly list" where
  "check_columns note code =
     (if list_ex isna note then [Missing_notes (length (filter isna note))] else [])
     @ (if list_ex (\<lambda>x. lt_num x 0) note \<or> list_ex (\<lambda>x. gt_num x 20) note
        then [Notes_out_of_range] else [])
     @ (if list_ex isna code then [Invalid_codes (length (filter isna code))] else [])"

text \<open>
  \<^verbatim>\<open>process_csv(file)\<close>: the messages shown and the returned pair, \<open>None\<close> standing
  for \<^verbatim>\<open>(None, None)\<close>. The function does not assign to the session state.
\<close>

definition process_csv ::
  "'f pandas \<Rightarrow> session_state \<Rightarrow> 'f \<Rightarrow> message list \<times> (frame \<times> anomaly list) option"
where
  "process_csv pd st file =
     (case read_csv pd file of
        None \<Rightarrow> ([Error_csv_exception], None)
      | Some df \<Rightarrow>
          (let missing_columns = filter (\<lambda>col. Text col \<notin> set (columns df)) required_columns in
           if missing_columns \<noteq> [] then ([Error_missing_columns missing_columns], None)
           else
             (case series_position (Text ''A:Code'') (columns df) of
                None \<Rightarrow> ([Error_csv_exception], None)
              | Some c \<Rightarrow>
                  (case series_position (Text ''Note'') (columns df) of
                     None \<Rightarrow> ([Error_csv_exception], None)
                   | Some n \<Rightarrow>
                       (let df = coerce_column pd n (coerce_column pd c df);
                            note = column_values df n;
                            code = column_values df c
                        in case check_original st code of
                             None \<Rightarrow> ([Error_csv_exception], None)
                           | Some absent \<Rightarrow> ([], Some (df, check_columns note code @ absent)))))))"

section \<open>Merger\<close>

text \<open>
  The labels of \<^verbatim>\<open>left.merge(right, on='A:Code', how='left')\<close>, where the right
  frame has the key and \<open>m\<close> columns labelled \<^verbatim>\<open>Note\<close>: a label \<^verbatim>\<open>Note\<close> on both
  sides gets the suffixes \<^verbatim>\<open>_x\<close> and \<^verbatim>\<open>_y\<close>.
\<close>

definition merge_columns :: "cell list \<Rightarrow> nat \<Rightarrow> cell list" where
  "merge_columns cols m =
     (if Text ''Note'' \<in> set cols
      then map (\<lambda>c. if c = Text ''Note'' then Text ''Note_x'' else c) cols
           @ replicate m (Text ''Note_y'')
      else cols @ replicate m (Text ''Note''))"

text \<open>
  The rows of the left join. The right frame is given by the key and the Note cells
  of each of its rows. Every left row is kept, in order: it is repeated once for each
  right row of the same key, in the order of the right frame, and it appears once with
  missing Notes when no right row has its key. pandas matches a missing key with a
  missing key, so key equality is equality of cells.
\<close>

definition merge_row :: "nat \<Rightarrow> nat \<Rightarrow> nat \<Rightarrow> (cell \<times> cell list) list \<Rightarrow> row \<Rightarrow> row list" where
  "merge_row w k m right l =
     (let matches = filter (\<lambda>kr. fst kr = cell_at l k) right in
      if matches = [] then [pad w l @ replicate m NaN]
      else map (\<lambda>kr. pad w l @ snd kr) matches)"

definition merge_left :: "frame \<Rightarrow> nat \<Rightarrow> (cell \<times> cell list) list \<Rightarrow> nat \<Rightarrow> frame" where
  "merge_left left k right m =
     \<lparr>columns = merge_columns (columns left) m,
      rows = concat (map (merge_row (length (columns left)) k m right) (rows left))\<rparr>"

text \<open>
  \<^verbatim>\<open>st.session_state.original_data.merge(cleaned_csv[['A:Code', 'Note']], on='A:Code', how='left')\<close>.
  \<open>None\<close> stands for an exception: no stored roster, no column \<^verbatim>\<open>Note\<close> or
  \<^verbatim>\<open>A:Code\<close> in the grade frame, or a key label that is not unique on one side.
\<close>

definition final_df :: "session_state \<Rightarrow> frame \<Rightarrow> frame option" where
  "final_df st cleaned_csv =
     (case original_data st of
        None \<Rightarrow> None
      | Some original \<Rightarrow>
          (case label_positions (Text ''Note'') (columns cleaned_csv) of
             [] \<Rightarrow> None
           | n # ns \<Rightarrow>
               (case series_position (Text ''A:Code'') (columns cleaned_csv) of
                  None \<Rightarrow> None
                | Some c \<Rightarrow>
                    (case series_position (Text ''A:Code'') (columns original) of
                       None \<Rightarrow> None
                     | Some k \<Rightarrow>
                         Some (merge_left original k
                                 (map (\<lambda>r. (cell_at r c, map (cell_at r) (n # ns)))
                                      (rows cleaned_csv))
                                 (length (n # ns)))))))"

text \<open>
  The written sheet: the value of the cell at (row, column), \<open>None\<close> where nothing
  was written. A missing value is written as an empty cell, \<open>Some NaN\<close>.
\<close>

type_synonym sheet = "nat \<times> nat \<Rightarrow> cell option"

definition empty_sheet :: sheet where
  "empty_sheet = (\<lambda>p. None)"

definition write_row :: "nat \<Rightarrow> row \<Rightarrow> sheet \<Rightarrow> sheet" where
  "write_row r cells sh =
     (\<lambda>p. if fst p = r \<and> snd p < length cells then Some (cells ! snd p) else sh p)"

fun write_rows :: "nat \<Rightarrow> row list \<Rightarrow> sheet \<Rightarrow> sheet" where
  "write_rows r [] sh = sh"
| "write_rows r (cells # rest) sh = write_rows (Suc r) rest (write_row r cells sh)"

text \<open>
  \<^verbatim>\<open>frame.to_excel(writer, index=False, header=..., startrow=...)\<close> on the writer's
  one sheet: the labels, when asked for, on row \<open>startrow\<close>, then the rows.
\<close>

definition to_excel :: "bool \<Rightarrow> nat \<Rightarrow> cell list \<Rightarrow> row list \<Rightarrow> sheet \<Rightarrow> sheet" where
  "to_excel header startrow cols rs sh =
     (if header then write_rows (Suc startrow) rs (write_row startrow cols sh)
      else write_rows startrow rs sh)"

text \<open>
  \<^verbatim>\<open>generate_final_excel(cleaned_csv)\<close>: the messages shown and the written sheet,
  \<open>None\<close> standing for \<^verbatim>\<open>None\<close>. The stored preamble has positional labels, which
  \<^verbatim>\<open>header=False\<close> leaves out.
\<close>

definition generate_final_excel :: "session_state \<Rightarrow> frame \<Rightarrow> message list \<times> sheet option" where
  "generate_final_excel st cleaned_csv =
     (case final_df st cleaned_csv of
        None \<Rightarrow> ([Error_final_exception], None)
      | Some final \<Rightarrow>
          (case header_rows st of
             None \<Rightarrow> ([Error_final_exception], None)
           | Some header_df \<Rightarrow>
               (let sh = (if \<not> raw_empty header_df
                          then to_excel False 0 [] header_df empty_sheet else empty_sheet)
                in ([], Some (to_excel True (length header_df) (columns final) (rows final) sh)))))"

text \<open>
  The second tab of the interface, without the display of the statistics: the grade
  file is processed, and whenever it yields a frame the final file is generated.
\<close>

definition tab2 ::
  "'f pandas \<Rightarrow> session_state \<Rightarrow> 'f \<Rightarrow> message list \<times> anomaly list option \<times> sheet option"
where
  "tab2 pd st uploaded_csv =
     (if original_data st = None then ([Warning_excel_first], None, None)
      else
        (case process_csv pd st uploaded_csv of
           (msgs, None) \<Rightarrow> (msgs, None, None)
         | (msgs, Some (cleaned_csv, anomalies)) \<Rightarrow>
             (msgs @ fst (generate_final_excel st cleaned_csv), Some anomalies,
              snd (generate_final_excel st cleaned_csv))))"

section \<open>Example inputs\<close>

text \<open>
  An instance of the parameters, for evaluating the model: an uploaded file is an
  already parsed sheet, an already parsed grade file, or a file on which the parser
  raises; every number prints as \<^verbatim>\<open>0\<close>; the numeric parser knows a few
  literals.
\<close>

datatype upload = Excel_file "row list" | Csv_file frame | Broken_file

fun example_read_excel :: "upload \<Rightarrow> row list option" where
  "example_read_excel (Excel_file t) = Some t"
| "example_read_excel (Csv_file f) = None"
| "example_read_excel Broken_file = None"

fun example_read_csv :: "upload \<Rightarrow> frame option" where
  "example_read_csv (Csv_file f) = Some f"
| "example_read_csv (Excel_file t) = None"
| "example_read_csv Broken_file = None"

definition example_pandas :: "upload pandas" where
  "example_pandas =
     \<lparr>read_excel = example_read_excel, read_csv = example_read_csv,
      str_num = (\<lambda>x. ''0''),
      parse_num = map_of [(''1'', 1), (''2'', 2), (''3'', 3), (''15'', 15), (''21'', 21),
                          (''22'', 22)]\<rparr>"

text \<open>
  A sheet with three rows above the header row; row 1 has the labels in another case,
  rows 4 and 5 hold all three labels again.
\<close>

definition example_sheet :: "row list" where
  "example_sheet =
     [[Text ''Licence 1'', NaN, NaN],
      [Text ''code'', Text ''Nom'', Text Prenom],
      [NaN, Num 2024, NaN],
      [Text ''Code'', Text ''Nom'', Text Prenom],
      [Text ''1'', Text ''Dupont'', Text ''Code''],
      [Text ''Nom'', Text Prenom, Text ''Code''],
      [Text ''x'', Text ''Martin'', Text ''Luc'']]"

text \<open>A sheet whose header row is its last row, and a sheet without a header row.\<close>

definition example_header_last :: "row list" where
  "example_header_last =
     [[Text ''Licence 1'', NaN, NaN], [Text ''Code'', Text ''Nom'', Text Prenom]]"

definition example_no_header :: "row list" where
  "example_no_header =
     [[Text ''code'', Text ''Nom'', Text Prenom], [Text ''1'', Text ''Dupont'', Text ''Luc'']]"

text \<open>A grade file without the columns \<^verbatim>\<open>Pr\<close>e\<^verbatim>\<open>nom\<close> and \<^verbatim>\<open>Note\<close>.\<close>

definition example_short_csv :: frame where
  "example_short_csv =
     \<lparr>columns = [Text ''A:Code'', Text ''Nom''], rows = [[Text ''1'', Text ''Dupont'']]\<rparr>"

text \<open>The roster of \<open>example_sheet\<close>, and the session state that holds it.\<close>

definition example_roster :: frame where
  "example_roster =
     \<lparr>columns = [Text ''A:Code'', Text ''Nom'', Text Prenom],
      rows = [[Num 1, Text ''Dupont'', Text ''Code''],
              [NaN, Text Prenom, Text ''Code''],
              [NaN, Text ''Martin'', Text ''Luc'']]\<rparr>"

definition example_loaded :: session_state where
  "example_loaded =
     \<lparr>original_data = Some example_roster, header_rows = Some (take 3 example_sheet)\<rparr>"

text \<open>
  A grade file with an unparsable identifier, a missing score and an unparsable score,
  and the frame \<open>process_csv\<close> returns for it.
\<close>

definition example_grades :: frame where
  "example_grades =
     \<lparr>columns = [Text ''A:Code'', Text ''Nom'', Text Prenom, Text ''Note''],
      rows = [[Text ''1'', Text ''Dupont'', Text ''Luc'', Text ''15''],
              [Text ''abc'', Text ''Martin'', Text ''Zoe'', NaN],
              [Num 3, Text ''Petit'', Text ''Lea'', Text ''abs'']]\<rparr>"

definition example_cleaned :: frame where
  "example_cleaned =
     \<lparr>columns = [Text ''A:Code'', Text ''Nom'', Text Prenom, Text ''Note''],
      rows = [[Num 1, Text ''Dupont'', Text ''Luc'', Num 15],
              [NaN, Text ''Martin'', Text ''Zoe'', NaN],
              [Num 3, Text ''Petit'', Text ''Lea'', NaN]]\<rparr>"

text \<open>
  A roster without missing identifiers and a grade file for it, with one missing
  score, one score of 21, and no row for the identifier 3; a grade file with one row,
  for the identifier 1.
\<close>

definition example_roster3 :: frame where
  "example_roster3 =
     \<lparr>columns = [Text ''A:Code'', Text ''Nom'', Text Prenom],
      rows = [[Num 1, Text ''Dupont'', Text ''Luc''],
              [Num 2, Text ''Martin'', Text ''Zoe''],
              [Num 3, Text ''Petit'', Text ''Lea'']]\<rparr>"

definition example_state3 :: session_state where
  "example_state3 =
     \<lparr>original_data = Some example_roster3, header_rows = Some (take 3 example_sheet)\<rparr>"

definition example_grades3 :: frame where
  "example_grades3 =
     \<lparr>columns = [Text ''A:Code'', Text ''Nom'', Text Prenom, Text ''Note''],
      rows = [[Text ''1'', Text ''Dupont'', Text ''Luc'', NaN],
              [Text ''2'', Text ''Martin'', Text ''Zoe'', Text ''21'']]\<rparr>"

definition example_cleaned3 :: frame where
  "example_cleaned3 =
     \<lparr>columns = [Text ''A:Code'', Text ''Nom'', Text Prenom, Text ''Note''],
      rows = [[Num 1, Text ''Dupont'', Text ''Luc'', NaN],
              [Num 2, Text ''Martin'', Text ''Zoe'', Num 21]]\<rparr>"

definition example_grades_one :: frame where
  "example_grades_one =
     \<lparr>columns = [Text ''A:Code'', Text ''Nom'', Text Prenom, Text ''Note''],
      rows = [[Text ''1'', Text ''Dupont'', Text ''Luc'', Text ''15'']]\<rparr>"

definition example_cleaned_one :: frame where
  "example_cleaned_one =
     \<lparr>columns = [Text ''A:Code'', Text ''Nom'', Text Prenom, Text ''Note''],
      rows = [[Num 1, Text ''Dupont'', Text ''Luc'', Num 15]]\<rparr>"

text \<open>
  The left join of \<open>example_roster3\<close> with \<open>example_cleaned3\<close>. A roster of two
  rows with a grade file for it that has a score of 22, and a grade file that has two
  rows for the identifier 1, with the left join of the roster with it.
\<close>

definition example_merged3 :: frame where
  "example_merged3 =
     \<lparr>columns = [Text ''A:Code'', Text ''Nom'', Text Prenom, Text ''Note''],
      rows = [[Num 1, Text ''Dupont'', Text ''Luc'', NaN],
              [Num 2, Text ''Martin'', Text ''Zoe'', Num 21],
              [Num 3, Text ''Petit'', Text ''Lea'', NaN]]\<rparr>"

definition example_roster2 :: frame where
  "example_roster2 =
     \<lparr>columns = [Text ''A:Code'', Text ''Nom'', Text Prenom],
      rows = [[Num 1, Text ''Dupont'', Text ''Luc''],
              [Num 2, Text ''Martin'', Text ''Zoe'']]\<rparr>"

definition example_state2 :: session_state where
  "example_state2 =
     \<lparr>original_data = Some example_roster2, header_rows = Some (take 3 example_sheet)\<rparr>"

definition example_grades2 :: frame where
  "example_grades2 =
     \<lparr>columns = [Text ''A:Code'', Text ''Nom'', Text Prenom, Text ''Note''],
      rows = [[Text ''1'', Text ''Dupont'', Text ''Luc'', Text ''15''],
              [Text ''2'', Text ''Martin'', Text ''Zoe'', Text ''22'']]\<rparr>"

definition example_cleaned2 :: frame where
  "example_cleaned2 =
     \<lparr>columns = [Text ''A:Code'', Text ''Nom'', Text Prenom, Text ''Note''],
      rows = [[Num 1, Text ''Dupont'', Text ''Luc'', Num 15],
              [Num 2, Text ''Martin'', Text ''Zoe'', Num 22]]\<rparr>"

definition example_dup_grades :: frame where
  "example_dup_grades =
     \<lparr>columns = [Text ''A:Code'', Text ''Nom'', Text Prenom, Text ''Note''],
      rows = [[Text ''1'', Text ''Dupont'', Text ''Luc'', Text ''15''],
              [Text ''1'', Text ''Dupont'', Text ''Luc'', Text ''22'']]\<rparr>"

definition example_dup_cleaned :: frame where
  "example_dup_cleaned =
     \<lparr>columns = [Text ''A:Code'', Text ''Nom'', Text Prenom, Text ''Note''],
      rows = [[Num 1, Text ''Dupont'', Text ''Luc'', Num 15],
              [Num 1, Text ''Dupont'', Text ''Luc'', Num 22]]\<rparr>"

definition example_dup_merged :: frame where
  "example_dup_merged =
     \<lparr>columns = [Text ''A:Code'', Text ''Nom'', Text Prenom, Text ''Note''],
      rows = [[Num 1, Text ''Dupont'', Text ''Luc'', Num 15],
              [Num 1, Text ''Dupont'', Text ''Luc'', Num 22],
              [Num 2, Text ''Martin'', Text ''Zoe'', NaN]]\<rparr>"

text \<open>
  A sheet whose last row has no identifier, with its roster and the session state that
  holds it. A grade frame with one row without identifier, with the left join of that
  roster with it; a grade frame with two rows without identifier.
\<close>

definition example_sheet4 :: "row list" where
  "example_sheet4 =
     [[Text ''Licence 1'', NaN, NaN],
      [NaN, Num 2024, NaN],
      [Text ''Code'', Text ''Nom'', Text Prenom],
      [Text ''1'', Text ''Dupont'', Text ''Luc''],
      [Text ''2'', Text ''Martin'', Text ''Zoe''],
      [Text ''3'', Text ''Petit'', Text ''Lea''],
      [NaN, Text ''Durand'', Text ''Eve'']]"

definition example_roster4 :: frame where
  "example_roster4 =
     \<lparr>columns = [Text ''A:Code'', Text ''Nom'', Text Prenom],
      rows = [[Num 1, Text ''Dupont'', Text ''Luc''],
              [Num 2, Text ''Martin'', Text ''Zoe''],
              [Num 3, Text ''Petit'', Text ''Lea''],
              [NaN, Text ''Durand'', Text ''Eve'']]\<rparr>"

definition example_state4 :: session_state where
  "example_state4 =
     \<lparr>original_data = Some example_roster4, header_rows = Some (take 2 example_sheet4)\<rparr>"

definition example_unidentified :: frame where
  "example_unidentified =
     \<lparr>columns = [Text ''A:Code'', Text ''Nom'', Text Prenom, Text ''Note''],
      rows = [[Num 1, Text ''Dupont'', Text ''Luc'', Num 15],
              [NaN, NaN, NaN, Num 7]]\<rparr>"

definition example_unidentified_merged :: frame where
  "example_unidentified_merged =
     \<lparr>columns = [Text ''A:Code'', Text ''Nom'', Text Prenom, Text ''Note''],
      rows = [[Num 1, Text ''Dupont'', Text ''Luc'', Num 15],
              [Num 2, Text ''Martin'', Text ''Zoe'', NaN],
              [Num 3, Text ''Petit'', Text ''Lea'', NaN],
              [NaN, Text ''Durand'', Text ''Eve'', Num 7]]\<rparr>"

definition example_two_unidentified :: frame where
  "example_two_unidentified =
     \<lparr>columns = [Text ''A:Code'', Text ''Nom'', Text Prenom, Text ''Note''],
      rows = [[Num 2, Text ''Martin'', Text ''Zoe'', Num 21],
              [NaN, NaN, NaN, Num 7],
              [NaN, NaN, NaN, Num 9]]\<rparr>"

section \<open>Properties of the Header Locator\<close>

lemma row_has_terms_subset:
  "row_has_terms pd r ts = (set ts \<subseteq> astype_str pd ` set r)"
  by (auto simp: row_has_terms_def list_all_iff)

lemma iterrows_find_None:
  "(iterrows_find pd i df ts = None) = (\<forall>j<length df. \<not> row_has_terms pd (df ! j) ts)"
proof (induction df arbitrary: i)
  case Nil
  show ?case by simp
next
  case (Cons r rest)
  show ?case
    by (auto simp: Cons.IH less_Suc_eq_0_disj)
qed

lemma iterrows_find_Some:
  "(iterrows_find pd i df ts = Some n) =
     (\<exists>k<length df. n = i + k \<and> row_has_terms pd (df ! k) ts
        \<and> (\<forall>j<k. \<not> row_has_terms pd (df ! j) ts))"
proof (induction df arbitrary: i)
  case Nil
  show ?case by simp
next
  case (Cons r rest)
  show ?case
  proof (cases "row_has_terms pd r ts")
    case True
    have "(\<exists>k<Suc (length rest). n = i + k \<and> row_has_terms pd ((r # rest) ! k) ts
            \<and> (\<forall>j<k. \<not> row_has_terms pd ((r # rest) ! j) ts)) = (n = i)"
    proof
      assume "\<exists>k<Suc (length rest). n = i + k \<and> row_has_terms pd ((r # rest) ! k) ts
                \<and> (\<forall>j<k. \<not> row_has_terms pd ((r # rest) ! j) ts)"
      then obtain k where k: "n = i + k" "\<forall>j<k. \<not> row_has_terms pd ((r # rest) ! j) ts"
        by blast
      have "k = 0"
      proof (rule ccontr)
        assume "k \<noteq> 0"
        then have "0 < k" by simp
        with k(2) have "\<not> row_has_terms pd ((r # rest) ! 0) ts" by blast
        with True show False by simp
      qed
      with k(1) show "n = i" by simp
    next
      assume "n = i"
      with True show "\<exists>k<Suc (length rest). n = i + k \<and> row_has_terms pd ((r # rest) ! k) ts
                \<and> (\<forall>j<k. \<not> row_has_terms pd ((r # rest) ! j) ts)"
        by (intro exI [of _ 0]) simp
    qed
    with True show ?thesis by auto
  next
    case False
    have "(\<exists>k<Suc (length rest). n = i + k \<and> row_has_terms pd ((r # rest) ! k) ts
            \<and> (\<forall>j<k. \<not> row_has_terms pd ((r # rest) ! j) ts))
        = (\<exists>k<length rest. n = Suc i + k \<and> row_has_terms pd (rest ! k) ts
            \<and> (\<forall>j<k. \<not> row_has_terms pd (rest ! j) ts))"
      (is "?L = ?R")
    proof
      assume ?L
      then obtain k where k: "k < Suc (length rest)" "n = i + k"
          "row_has_terms pd ((r # rest) ! k) ts"
          "\<forall>j<k. \<not> row_has_terms pd ((r # rest) ! j) ts"
        by blast
      from k(3) False obtain k' where k': "k = Suc k'"
        by (cases k) auto
      have "\<forall>j<k'. \<not> row_has_terms pd (rest ! j) ts"
      proof (intro allI impI)
        fix j assume "j < k'"
        then have "Suc j < k" using k' by simp
        with k(4) have "\<not> row_has_terms pd ((r # rest) ! Suc j) ts" by blast
        then show "\<not> row_has_terms pd (rest ! j) ts" by simp
      qed
      with k k' show ?R
        by (intro exI [of _ k']) simp
    next
      assume ?R
      then obtain k where k: "k < length rest" "n = Suc i + k"
          "row_has_terms pd (rest ! k) ts"
          "\<forall>j<k. \<not> row_has_terms pd (rest ! j) ts"
        by blast
      have "\<forall>j<Suc k. \<not> row_has_terms pd ((r # rest) ! j) ts"
      proof (intro allI impI)
        fix j assume "j < Suc k"
        then show "\<not> row_has_terms pd ((r # rest) ! j) ts"
          using False k(4) by (cases j) auto
      qed
      with k show ?L
        by (intro exI [of _ "Suc k"]) simp
    qed
    with False show ?thesis by (simp add: Cons.IH)
  qed
qed


text \<open>
  Claim C1. For every table and every list of required terms (in particular
  \<^verbatim>\<open>Code\<close>, \<^verbatim>\<open>Nom\<close>, \<^verbatim>\<open>Pr\<close>e\<^verbatim>\<open>nom\<close>): \<open>find_header_row\<close> returns the index
  \<open>n\<close> exactly when row \<open>n\<close> is the first row whose cells, as texts compared by
  equality, include every required term, and it returns \<open>None\<close> exactly when no row
  does.
\<close>

theorem find_header_row_first_match:
  "(find_header_row pd df ts = Some n) =
     (n < length df \<and> set ts \<subseteq> astype_str pd ` set (df ! n)
        \<and> (\<forall>j<n. \<not> set ts \<subseteq> astype_str pd ` set (df ! j)))
   \<and> (find_header_row pd df ts = None) =
     (\<forall>j<length df. \<not> set ts \<subseteq> astype_str pd ` set (df ! j))"
  unfolding find_header_row_def iterrows_find_None iterrows_find_Some row_has_terms_subset
  by auto

theorem find_header_row_first_match_witness:
  "find_header_row example_pandas example_sheet required_terms = Some 3"
  using find_header_row_first_match
    [of example_pandas example_sheet required_terms 3, THEN conjunct1]
  by (simp add: example_pandas_def example_sheet_def required_terms_def Prenom_def
      eval_nat_numeral All_less_Suc)

section \<open>Properties of the Roster Normalizer and of the fatal conditions\<close>

lemma process_excel_failure:
  "snd (snd (process_excel pd st file)) = None \<Longrightarrow> fst (process_excel pd st file) = st"
  by (simp add: process_excel_def Let_def split: option.splits list.splits if_splits)

lemma process_excel_success:
  "process_excel pd st file = (st', msgs, Some (roster, pre)) \<Longrightarrow>
     st' = st\<lparr>original_data := Some roster, header_rows := Some pre\<rparr>"
  by (auto simp: process_excel_def Let_def split: option.splits list.splits if_splits)

lemma process_excel_output_indep:
  "snd (process_excel pd st file) = snd (process_excel pd st2 file)"
  by (simp add: process_excel_def Let_def split: option.splits list.splits if_splits)

lemma find_header_row_bound:
  "find_header_row pd df ts = Some h \<Longrightarrow> h < length df"
  by (simp add: find_header_row_def iterrows_find_Some)

lemma process_excel_header_not_found:
  "read_excel pd file = Some df \<Longrightarrow> find_header_row pd df required_terms = None \<Longrightarrow>
     process_excel pd st file = (st, [Error_header_not_found], None)"
  by (simp add: process_excel_def)

lemma process_excel_empty:
  assumes "read_excel pd file = Some df" "find_header_row pd df required_terms = Some h"
    "length df = Suc h"
  shows "process_excel pd st file = (st, [Error_empty_excel], None)"
proof -
  have "drop h df = [df ! h]"
    using assms(3) by (metis Cons_nth_drop_Suc drop_all lessI order_refl)
  then show ?thesis
    using assms by (simp add: process_excel_def Let_def empty_def)
qed

lemma process_csv_missing_columns:
  assumes "read_csv pd file = Some df"
    "filter (\<lambda>col. Text col \<notin> set (columns df)) required_columns = missing" "missing \<noteq> []"
  shows "process_csv pd st file = ([Error_missing_columns missing], None)"
  using assms by (simp add: process_csv_def Let_def)

lemma example_sheet_processed:
  "process_excel example_pandas st (Excel_file example_sheet)
     = (st\<lparr>original_data := Some example_roster, header_rows := Some (take 3 example_sheet)\<rparr>,
        [Warning_invalid_codes 2], Some (example_roster, take 3 example_sheet))"
  by (simp add: process_excel_def example_pandas_def example_sheet_def example_roster_def
      required_terms_def Prenom_def find_header_row_def row_has_terms_def Let_def empty_def
      rename_code_def series_position_def label_positions_def coerce_column_def cell_at_def
      upt_rec [of _ "numeral _"] upt_rec [of _ "Suc _"])

lemma example_broken_processed:
  "process_excel example_pandas st Broken_file = (st, [Error_excel_exception], None)"
  by (simp add: process_excel_def example_pandas_def)

lemma example_no_header_processed:
  "process_excel example_pandas st (Excel_file example_no_header)
     = (st, [Error_header_not_found], None)"
  by (simp add: process_excel_def example_pandas_def example_no_header_def
      required_terms_def Prenom_def find_header_row_def row_has_terms_def)

lemma example_header_last_processed:
  "process_excel example_pandas st (Excel_file example_header_last)
     = (st, [Error_empty_excel], None)"
  by (simp add: process_excel_def example_pandas_def example_header_last_def
      required_terms_def Prenom_def find_header_row_def row_has_terms_def Let_def empty_def)

text \<open>
  Claim C7. Each fatal condition ends its stage with one error message and no output:
  when no header row is found, and when the header row is the last row of the sheet
  (the roster is empty after the header is promoted), \<open>process_excel\<close> shows the
  error, returns no output and leaves the session state as it was, without any
  warning; when required columns are missing from the grade file, \<open>process_csv\<close>
  shows the error with the list of the missing columns, returns no output, and the
  second tab produces neither anomalies nor a final file.
\<close>

theorem fatal_conditions_abort:
  "(read_excel pd up = Some df \<and> find_header_row pd df required_terms = None
      \<longrightarrow> process_excel pd st up = (st, [Error_header_not_found], None))
   \<and> (read_excel pd up = Some df \<and> find_header_row pd df required_terms = Some h
        \<and> length df = Suc h
      \<longrightarrow> process_excel pd st up = (st, [Error_empty_excel], None))
   \<and> (read_csv pd up = Some g
        \<and> filter (\<lambda>col. Text col \<notin> set (columns g)) required_columns \<noteq> []
      \<longrightarrow> process_csv pd st up =
            ([Error_missing_columns (filter (\<lambda>col. Text col \<notin> set (columns g)) required_columns)],
             None)
          \<and> snd (tab2 pd st up) = (None, None))"
proof (intro conjI impI)
  assume "read_excel pd up = Some df \<and> find_header_row pd df required_terms = None"
  then show "process_excel pd st up = (st, [Error_header_not_found], None)"
    by (simp add: process_excel_header_not_found)
next
  assume "read_excel pd up = Some df \<and> find_header_row pd df required_terms = Some h
        \<and> length df = Suc h"
  then show "process_excel pd st up = (st, [Error_empty_excel], None)"
    by (simp add: process_excel_empty)
next
  assume a: "read_csv pd up = Some g
        \<and> filter (\<lambda>col. Text col \<notin> set (columns g)) required_columns \<noteq> []"
  then show c: "process_csv pd st up =
            ([Error_missing_columns (filter (\<lambda>col. Text col \<notin> set (columns g)) required_columns)],
             None)"
    by (simp add: process_csv_missing_columns)
  show "snd (tab2 pd st up) = (None, None)"
    by (simp add: tab2_def c)
qed

theorem fatal_conditions_abort_witness:
  "process_excel example_pandas initial_state (Excel_file example_no_header)
     = (initial_state, [Error_header_not_found], None)
   \<and> process_excel example_pandas initial_state (Excel_file example_header_last)
     = (initial_state, [Error_empty_excel], None)
   \<and> process_csv example_pandas initial_state (Csv_file example_short_csv)
     = ([Error_missing_columns [Prenom, ''Note'']], None)
   \<and> snd (tab2 example_pandas initial_state (Csv_file example_short_csv)) = (None, None)"
  using fatal_conditions_abort [where pd = example_pandas and st = initial_state
      and up = "Excel_file example_no_header" and df = example_no_header, THEN conjunct1]
    fatal_conditions_abort [where pd = example_pandas and st = initial_state
      and up = "Excel_file example_header_last" and df = example_header_last and h = 1,
      THEN conjunct2, THEN conjunct1]
    fatal_conditions_abort [where pd = example_pandas and st = initial_state
      and up = "Csv_file example_short_csv" and g = example_short_csv,
      THEN conjunct2, THEN conjunct2]
  by (simp add: example_pandas_def example_no_header_def example_header_last_def
      example_short_csv_def required_terms_def required_columns_def Prenom_def
      find_header_row_def row_has_terms_def)

text \<open>
  Claim C10. \<open>process_excel\<close> assigns to the session state only on success: when it
  returns no output (after a parser exception, a header row not found, or an empty
  roster, which are the only failures), the session state is the one it was called
  with; when it returns a roster and a preamble, the new state is the old one with
  exactly these two stored.
\<close>

theorem state_replaced_only_on_success:
  "(snd (snd (process_excel pd st up)) = None
      \<longrightarrow> fst (process_excel pd st up) = st
          \<and> fst (snd (process_excel pd st up))
              \<in> {[Error_excel_exception], [Error_header_not_found], [Error_empty_excel]})
   \<and> (snd (snd (process_excel pd st up)) = Some (roster, pre)
      \<longrightarrow> fst (process_excel pd st up)
            = st\<lparr>original_data := Some roster, header_rows := Some pre\<rparr>)"
  by (simp add: process_excel_def Let_def split: option.splits list.splits if_splits)

theorem state_replaced_only_on_success_witness:
  "fst (process_excel example_pandas example_loaded Broken_file) = example_loaded
   \<and> fst (process_excel example_pandas example_loaded (Excel_file example_no_header)) = example_loaded
   \<and> fst (process_excel example_pandas example_loaded (Excel_file example_header_last)) = example_loaded
   \<and> fst (process_excel example_pandas initial_state (Excel_file example_sheet)) = example_loaded"
proof -
  have a: "snd (snd (process_excel example_pandas example_loaded Broken_file)) = None"
    by (simp add: example_broken_processed)
  have b: "snd (snd (process_excel example_pandas example_loaded (Excel_file example_no_header)))
             = None"
    by (simp add: example_no_header_processed)
  have c: "snd (snd (process_excel example_pandas example_loaded (Excel_file example_header_last)))
             = None"
    by (simp add: example_header_last_processed)
  have d: "snd (snd (process_excel example_pandas initial_state (Excel_file example_sheet)))
             = Some (example_roster, take 3 example_sheet)"
    by (simp add: example_sheet_processed)
  show ?thesis
    using state_replaced_only_on_success [THEN conjunct1, THEN mp, OF a]
      state_replaced_only_on_success [THEN conjunct1, THEN mp, OF b]
      state_replaced_only_on_success [THEN conjunct1, THEN mp, OF c]
      state_replaced_only_on_success [THEN conjunct2, THEN mp, OF d]
    by (simp add: initial_state_def example_loaded_def)
qed

text \<open>
  Claim C8. When \<open>process_excel\<close> succeeds on an upload, running it again on the same
  upload, from the state it left, yields the same state, the same warnings, the same
  roster and the same preamble; its output does not depend on the session state it
  starts from.
\<close>

theorem process_excel_idempotent:
  "process_excel pd st up = (st', msgs, Some (roster, pre)) \<Longrightarrow>
     process_excel pd st' up = (st', msgs, Some (roster, pre))
     \<and> snd (process_excel pd st2 up) = (msgs, Some (roster, pre))"
  by (auto simp: process_excel_def Let_def split: option.splits list.splits if_splits)

theorem process_excel_idempotent_witness:
  "process_excel example_pandas initial_state (Excel_file example_sheet)
     = (example_loaded, [Warning_invalid_codes 2], Some (example_roster, take 3 example_sheet))
   \<and> process_excel example_pandas example_loaded (Excel_file example_sheet)
     = (example_loaded, [Warning_invalid_codes 2], Some (example_roster, take 3 example_sheet))"
  using process_excel_idempotent [where pd = example_pandas and st = initial_state
      and up = "Excel_file example_sheet" and st' = example_loaded
      and msgs = "[Warning_invalid_codes 2]" and roster = example_roster
      and pre = "take 3 example_sheet"]
  by (simp add: example_sheet_processed initial_state_def example_loaded_def)

section \<open>Properties of numeric coercion and of the anomaly checks\<close>

lemma isna_to_numeric:
  "isna (to_numeric pd c) = (c = NaN \<or> (\<exists>s. c = Text s \<and> parse_num pd s = None))"
  by (cases c) (auto split: option.splits)

lemma to_numeric_idem: "to_numeric pd (to_numeric pd c) = to_numeric pd c"
  by (cases c) (auto split: option.splits)

lemma cell_at_update:
  "cell_at (r[j := v]) i = (if i = j \<and> j < length r then v else cell_at r i)"
  by (auto simp: cell_at_def)

lemma cell_at_coerced:
  "cell_at (r[j := to_numeric pd (cell_at r j)]) i
     = (if i = j then to_numeric pd (cell_at r j) else cell_at r i)"
  by (auto simp: cell_at_def)

lemma column_values_coerce:
  "column_values (coerce_column pd j f) i
     = (if i = j then map (to_numeric pd) (column_values f j) else column_values f i)"
  by (simp add: column_values_def coerce_column_def cell_at_coerced)

lemma columns_coerce [simp]: "columns (coerce_column pd j f) = columns f"
  by (simp add: coerce_column_def)

lemma length_rows_coerce [simp]: "length (rows (coerce_column pd j f)) = length (rows f)"
  by (simp add: coerce_column_def)

lemma length_filter_isna_column:
  "length (filter (\<lambda>r. isna (cell_at r j)) (rows f)) = length (filter isna (column_values f j))"
  by (simp add: column_values_def filter_map comp_def)

lemma series_position_label:
  assumes "series_position l cols = Some j"
  shows "j < length cols \<and> cols ! j = l"
proof -
  from assms have "label_positions l cols = [j]"
    by (auto simp: series_position_def split: list.splits if_splits)
  then have "j \<in> set (filter (\<lambda>j. cols ! j = l) [0..<length cols])"
    by (simp add: label_positions_def)
  then show ?thesis by simp
qed

lemma series_position_distinct_labels:
  "series_position l cols = Some i \<Longrightarrow> series_position l' cols = Some j \<Longrightarrow> l \<noteq> l' \<Longrightarrow> i \<noteq> j"
  using series_position_label by blast

lemma process_csv_success_shape:
  assumes "process_csv pd st up = (msgs, Some (cleaned, anomalies))"
  shows "\<exists>df c n absent.
           read_csv pd up = Some df
           \<and> filter (\<lambda>col. Text col \<notin> set (columns df)) required_columns = []
           \<and> series_position (Text ''A:Code'') (columns df) = Some c
           \<and> series_position (Text ''Note'') (columns df) = Some n
           \<and> cleaned = coerce_column pd n (coerce_column pd c df)
           \<and> check_original st (column_values cleaned c) = Some absent
           \<and> anomalies = check_columns (column_values cleaned n) (column_values cleaned c) @ absent
           \<and> msgs = []"
  using assms
  by (auto simp: process_csv_def Let_def split: option.splits if_splits)

lemma check_original_entries:
  "check_original st code = Some absent \<Longrightarrow>
     absent = [] \<or> (\<exists>k. 0 < k \<and> absent = [Absent_from_csv k])"
  by (auto simp: check_original_def Let_def split: option.splits if_splits)

lemma list_ex_isna: "list_ex isna xs = (0 < length (filter isna xs))"
  by (induction xs) auto

lemma Missing_notes_in_check_columns:
  "(Missing_notes k \<in> set (check_columns note code))
     = (0 < k \<and> k = length (filter isna note))"
  by (auto simp: check_columns_def list_ex_isna)

lemma Invalid_codes_in_check_columns:
  "(Invalid_codes k \<in> set (check_columns note code))
     = (0 < k \<and> k = length (filter isna code))"
  by (auto simp: check_columns_def list_ex_isna)

lemma list_ex_lt_num: "list_ex (\<lambda>c. lt_num c b) xs = (\<exists>x. Num x \<in> set xs \<and> x < b)"
proof (induction xs)
  case Nil
  show ?case by simp
next
  case (Cons c xs)
  then show ?case by (cases c) auto
qed

lemma list_ex_gt_num: "list_ex (\<lambda>c. gt_num c b) xs = (\<exists>x. Num x \<in> set xs \<and> b < x)"
proof (induction xs)
  case Nil
  show ?case by simp
next
  case (Cons c xs)
  then show ?case by (cases c) auto
qed

lemma Notes_out_of_range_in_check_columns:
  "(Notes_out_of_range \<in> set (check_columns note code))
     = (\<exists>x. Num x \<in> set note \<and> (x < 0 \<or> 20 < x))"
  by (auto simp: check_columns_def list_ex_lt_num list_ex_gt_num)

lemmas example_eval =
  example_pandas_def required_terms_def required_columns_def Prenom_def
  series_position_def label_positions_def coerce_column_def cell_at_def column_values_def
  check_columns_def check_original_def iter_getitem_def py_set_def py_diff_def py_in_def
  dropna_def Let_def upt_rec [of _ "numeral _"] upt_rec [of _ "Suc _"]

lemma example_grades_processed:
  "process_csv example_pandas initial_state (Csv_file example_grades)
     = ([], Some (example_cleaned, [Missing_notes 2, Invalid_codes 1]))"
  by (simp add: process_csv_def example_grades_def example_cleaned_def initial_state_def
      example_eval)

lemma example_sheet_header: "find_header_row example_pandas example_sheet required_terms = Some 3"
  by (simp add: example_pandas_def example_sheet_def required_terms_def Prenom_def
      find_header_row_def row_has_terms_def)

lemma label_positions_nonempty:
  "l \<in> set cols \<Longrightarrow> label_positions l cols \<noteq> []"
  by (auto simp: label_positions_def filter_empty_conv in_set_conv_nth)

lemma iter_getitem_present:
  "l \<in> set (columns f) \<Longrightarrow> iter_getitem f l \<noteq> None"
  using label_positions_nonempty [of l "columns f"]
  by (auto simp: iter_getitem_def split: list.splits)

lemma check_original_defined:
  "(case original_data st of None \<Rightarrow> True
    | Some roster \<Rightarrow> Text ''A:Code'' \<in> set (columns roster))
   \<Longrightarrow> \<exists>absent. check_original st code = Some absent"
  using iter_getitem_present
  by (fastforce simp: check_original_def Let_def split: option.splits)

lemma process_excel_succeeds:
  assumes "read_excel pd up = Some df" "find_header_row pd df required_terms = Some h"
    "Suc h < length df"
    "series_position (Text ''A:Code'') (rename_code (df ! h)) = Some j"
  shows "process_excel pd st up
           = (st\<lparr>original_data :=
                   Some (coerce_column pd j
                           \<lparr>columns = rename_code (df ! h), rows = drop (Suc h) df\<rparr>),
                 header_rows := Some (take h df)\<rparr>,
              (if 0 < length (filter isna (map (\<lambda>r. to_numeric pd (cell_at r j))
                                               (drop (Suc h) df)))
               then [Warning_invalid_codes
                       (length (filter isna (map (\<lambda>r. to_numeric pd (cell_at r j))
                                                 (drop (Suc h) df))))]
               else []),
              Some (coerce_column pd j
                      \<lparr>columns = rename_code (df ! h), rows = drop (Suc h) df\<rparr>,
                    take h df))"
proof -
  have d: "drop h df = df ! h # drop (Suc h) df"
    using assms(3) by (simp add: Cons_nth_drop_Suc)
  have ne: "drop (Suc h) df \<noteq> []"
    using assms(3) by simp
  have c: "rename_code (df ! h) \<noteq> []"
    using series_position_label [OF assms(4)] by auto
  let ?roster = "coerce_column pd j \<lparr>columns = rename_code (df ! h), rows = drop (Suc h) df\<rparr>"
  have v: "column_values ?roster j = map (\<lambda>r. to_numeric pd (cell_at r j)) (drop (Suc h) df)"
    by (simp add: column_values_coerce) (simp add: column_values_def)
  have f: "filter (\<lambda>r. isna (cell_at r j)) (rows ?roster) \<noteq> []
             = (0 < length (filter isna (column_values ?roster j)))"
    by (simp add: length_filter_isna_column flip: length_greater_0_conv)
  show ?thesis
    using assms(1,2,4) ne c f
    by (simp add: process_excel_def d Let_def empty_def length_filter_isna_column v)
qed

lemma process_csv_succeeds:
  assumes "read_csv pd up = Some g"
    "Text ''Nom'' \<in> set (columns g)" "Text Prenom \<in> set (columns g)"
    "series_position (Text ''A:Code'') (columns g) = Some c"
    "series_position (Text ''Note'') (columns g) = Some n"
    "check_original st (map (to_numeric pd) (column_values g c)) = Some absent"
  shows "process_csv pd st up
           = ([], Some (coerce_column pd n (coerce_column pd c g),
                        check_columns (map (to_numeric pd) (column_values g n))
                                      (map (to_numeric pd) (column_values g c)) @ absent))"
proof -
  have cn: "c \<noteq> n"
    using series_position_distinct_labels [OF assms(4,5)] by simp
  have "Text ''A:Code'' \<in> set (columns g)" "Text ''Note'' \<in> set (columns g)"
    using series_position_label [OF assms(4)] series_position_label [OF assms(5)]
    by (metis nth_mem)+
  then have m: "filter (\<lambda>col. Text col \<notin> set (columns g)) required_columns = []"
    using assms(2,3) by (simp add: required_columns_def)
  show ?thesis
    using assms(1,4,5,6) cn
    by (simp add: process_csv_def m Let_def column_values_coerce)
qed

lemma example_roster_coerced:
  "coerce_column example_pandas 0
     \<lparr>columns = rename_code (example_sheet ! 3), rows = drop (Suc 3) example_sheet\<rparr>
   = example_roster"
  by (simp add: example_sheet_def example_roster_def example_pandas_def rename_code_def
      coerce_column_def cell_at_def Prenom_def)

lemma example_cleaned_coerced:
  "coerce_column example_pandas 3 (coerce_column example_pandas 0 example_grades)
   = example_cleaned"
  by (simp add: example_grades_def example_cleaned_def example_pandas_def
      coerce_column_def cell_at_def)

text \<open>
  Claim C6. A value of the identifier column (roster and grade file) or of the score
  column (grade file) is missing after coercion exactly when it was missing or is a
  text that the numeric parser rejects, and no value makes a stage fail. Whatever the
  values of the identifier column are, \<open>process_excel\<close> succeeds on every sheet that
  has a header row, a row below it and one identifier column: the identifier column of
  the roster it stores and returns is the coerced column of the rows below the header,
  and the messages are the warning with the number of missing identifiers when that
  number is positive, and nothing otherwise. Whatever the values of the identifier and
  score columns are, \<open>process_csv\<close> succeeds on every grade file that has the four
  required columns, one identifier column and one score column (the stored roster, if
  any, having an identifier column): both columns of the returned frame are the
  coerced columns of the file, and the anomaly list holds the missing-score entry, and
  the missing-identifier entry, exactly with the number of missing values of the
  column and exactly when that number is positive.
\<close>

theorem unparsable_values_missing_and_counted:
  "(isna (to_numeric pd v) = (v = NaN \<or> (\<exists>s. v = Text s \<and> parse_num pd s = None)))
   \<and> (read_excel pd up = Some df \<and> find_header_row pd df required_terms = Some h
        \<and> Suc h < length df
        \<and> series_position (Text ''A:Code'') (rename_code (df ! h)) = Some j
      \<longrightarrow> (\<exists>roster.
             roster = coerce_column pd j
                        \<lparr>columns = rename_code (df ! h), rows = drop (Suc h) df\<rparr>
             \<and> column_values roster j
                 = map (\<lambda>r. to_numeric pd (cell_at r j)) (drop (Suc h) df)
             \<and> process_excel pd st up
                 = (st\<lparr>original_data := Some roster, header_rows := Some (take h df)\<rparr>,
                    (if 0 < length (filter isna (column_values roster j))
                     then [Warning_invalid_codes
                             (length (filter isna (column_values roster j)))]
                     else []),
                    Some (roster, take h df))))
   \<and> (read_csv pd up = Some g
        \<and> Text ''Nom'' \<in> set (columns g) \<and> Text Prenom \<in> set (columns g)
        \<and> series_position (Text ''A:Code'') (columns g) = Some c
        \<and> series_position (Text ''Note'') (columns g) = Some n
        \<and> (case original_data st of None \<Rightarrow> True
            | Some roster \<Rightarrow> Text ''A:Code'' \<in> set (columns roster))
      \<longrightarrow> (\<exists>cleaned anomalies.
             cleaned = coerce_column pd n (coerce_column pd c g)
             \<and> process_csv pd st up = ([], Some (cleaned, anomalies))
             \<and> column_values cleaned c = map (to_numeric pd) (column_values g c)
             \<and> column_values cleaned n = map (to_numeric pd) (column_values g n)
             \<and> (\<forall>k. (Missing_notes k \<in> set anomalies)
                      = (0 < k \<and> k = length (filter isna (column_values cleaned n))))
             \<and> (\<forall>k. (Invalid_codes k \<in> set anomalies)
                      = (0 < k \<and> k = length (filter isna (column_values cleaned c))))))"
proof (intro conjI impI)
  show "isna (to_numeric pd v) = (v = NaN \<or> (\<exists>s. v = Text s \<and> parse_num pd s = None))"
    by (rule isna_to_numeric)
next
  assume a: "read_excel pd up = Some df \<and> find_header_row pd df required_terms = Some h
        \<and> Suc h < length df
        \<and> series_position (Text ''A:Code'') (rename_code (df ! h)) = Some j"
  let ?roster = "coerce_column pd j \<lparr>columns = rename_code (df ! h), rows = drop (Suc h) df\<rparr>"
  have v: "column_values ?roster j = map (\<lambda>r. to_numeric pd (cell_at r j)) (drop (Suc h) df)"
    by (simp add: column_values_coerce) (simp add: column_values_def)
  have "process_excel pd st up
          = (st\<lparr>original_data := Some ?roster, header_rows := Some (take h df)\<rparr>,
             (if 0 < length (filter isna (column_values ?roster j))
              then [Warning_invalid_codes (length (filter isna (column_values ?roster j)))]
              else []),
             Some (?roster, take h df))"
    unfolding v using a by (intro process_excel_succeeds) simp_all
  with v
  show "\<exists>roster.
             roster = coerce_column pd j
                        \<lparr>columns = rename_code (df ! h), rows = drop (Suc h) df\<rparr>
             \<and> column_values roster j
                 = map (\<lambda>r. to_numeric pd (cell_at r j)) (drop (Suc h) df)
             \<and> process_excel pd st up
                 = (st\<lparr>original_data := Some roster, header_rows := Some (take h df)\<rparr>,
                    (if 0 < length (filter isna (column_values roster j))
                     then [Warning_invalid_codes
                             (length (filter isna (column_values roster j)))]
                     else []),
                    Some (roster, take h df))"
    by blast
next
  assume a: "read_csv pd up = Some g
        \<and> Text ''Nom'' \<in> set (columns g) \<and> Text Prenom \<in> set (columns g)
        \<and> series_position (Text ''A:Code'') (columns g) = Some c
        \<and> series_position (Text ''Note'') (columns g) = Some n
        \<and> (case original_data st of None \<Rightarrow> True
            | Some roster \<Rightarrow> Text ''A:Code'' \<in> set (columns roster))"
  let ?cleaned = "coerce_column pd n (coerce_column pd c g)"
  let ?note = "map (to_numeric pd) (column_values g n)"
  let ?code = "map (to_numeric pd) (column_values g c)"
  from a obtain absent where ab: "check_original st ?code = Some absent"
    using check_original_defined [of st ?code] by auto
  have cn: "c \<noteq> n"
    using a series_position_distinct_labels [of "Text ''A:Code''" "columns g" c "Text ''Note''" n]
    by simp
  have 1: "column_values ?cleaned c = ?code"
    using cn by (simp add: column_values_coerce)
  have 2: "column_values ?cleaned n = ?note"
    using cn by (simp add: column_values_coerce)
  have p: "process_csv pd st up = ([], Some (?cleaned, check_columns ?note ?code @ absent))"
    using a ab by (intro process_csv_succeeds) simp_all
  have e: "absent = [] \<or> (\<exists>k. 0 < k \<and> absent = [Absent_from_csv k])"
    using check_original_entries [OF ab] .
  have 3: "\<forall>k. (Missing_notes k \<in> set (check_columns ?note ?code @ absent))
                = (0 < k \<and> k = length (filter isna (column_values ?cleaned n)))"
    using e by (auto simp: 2 Missing_notes_in_check_columns)
  have 4: "\<forall>k. (Invalid_codes k \<in> set (check_columns ?note ?code @ absent))
                = (0 < k \<and> k = length (filter isna (column_values ?cleaned c)))"
    using e by (auto simp: 1 Invalid_codes_in_check_columns)
  from p 1 2 3 4
  show "\<exists>cleaned anomalies.
             cleaned = coerce_column pd n (coerce_column pd c g)
             \<and> process_csv pd st up = ([], Some (cleaned, anomalies))
             \<and> column_values cleaned c = map (to_numeric pd) (column_values g c)
             \<and> column_values cleaned n = map (to_numeric pd) (column_values g n)
             \<and> (\<forall>k. (Missing_notes k \<in> set anomalies)
                      = (0 < k \<and> k = length (filter isna (column_values cleaned n))))
             \<and> (\<forall>k. (Invalid_codes k \<in> set anomalies)
                      = (0 < k \<and> k = length (filter isna (column_values cleaned c))))"
    by blast
qed

theorem unparsable_values_missing_and_counted_witness:
  "isna (to_numeric example_pandas (Text ''abc''))
   \<and> column_values example_roster 0 = [Num 1, NaN, NaN]
   \<and> process_excel example_pandas initial_state (Excel_file example_sheet)
       = (example_loaded, [Warning_invalid_codes 2], Some (example_roster, take 3 example_sheet))
   \<and> column_values example_cleaned 0 = [Num 1, NaN, Num 3]
   \<and> column_values example_cleaned 3 = [Num 15, NaN, NaN]
   \<and> (\<exists>anomalies. process_csv example_pandas initial_state (Csv_file example_grades)
                       = ([], Some (example_cleaned, anomalies))
         \<and> Missing_notes 2 \<in> set anomalies \<and> Invalid_codes 1 \<in> set anomalies)"
proof -
  have a: "isna (to_numeric example_pandas (Text ''abc''))
             = (Text ''abc'' = NaN
                \<or> (\<exists>s. Text ''abc'' = Text s \<and> parse_num example_pandas s = None))"
    by (rule unparsable_values_missing_and_counted [THEN conjunct1])
  have "parse_num example_pandas ''abc'' = None"
    by (simp add: example_pandas_def)
  with a have 1: "isna (to_numeric example_pandas (Text ''abc''))"
    by simp
  have v: "column_values example_roster 0 = [Num 1, NaN, NaN]"
      "column_values example_cleaned 0 = [Num 1, NaN, Num 3]"
      "column_values example_cleaned 3 = [Num 15, NaN, NaN]"
    by (simp_all add: example_roster_def example_cleaned_def column_values_def cell_at_def)
  have e: "read_excel example_pandas (Excel_file example_sheet) = Some example_sheet
      \<and> find_header_row example_pandas example_sheet required_terms = Some 3
      \<and> Suc 3 < length example_sheet
      \<and> series_position (Text ''A:Code'') (rename_code (example_sheet ! 3)) = Some 0"
    by (simp add: example_sheet_header)
      (simp add: example_pandas_def example_sheet_def rename_code_def series_position_def
        label_positions_def Prenom_def upt_rec [of _ "numeral _"] upt_rec [of _ "Suc _"])
  from unparsable_values_missing_and_counted
      [THEN conjunct2, THEN conjunct1, THEN mp, OF e, of initial_state]
  obtain roster where r:
      "roster = coerce_column example_pandas 0
                  \<lparr>columns = rename_code (example_sheet ! 3),
                     rows = drop (Suc 3) example_sheet\<rparr>"
      "process_excel example_pandas initial_state (Excel_file example_sheet)
         = (initial_state\<lparr>original_data := Some roster,
                            header_rows := Some (take 3 example_sheet)\<rparr>,
            (if 0 < length (filter isna (column_values roster 0))
             then [Warning_invalid_codes (length (filter isna (column_values roster 0)))]
             else []),
            Some (roster, take 3 example_sheet))"
    by blast
  have "roster = example_roster"
    unfolding r(1) by (rule example_roster_coerced)
  with r(2)
  have 2: "process_excel example_pandas initial_state (Excel_file example_sheet)
       = (example_loaded, [Warning_invalid_codes 2], Some (example_roster, take 3 example_sheet))"
    by (simp add: v initial_state_def example_loaded_def)
  have g: "read_csv example_pandas (Csv_file example_grades) = Some example_grades
      \<and> Text ''Nom'' \<in> set (columns example_grades)
      \<and> Text Prenom \<in> set (columns example_grades)
      \<and> series_position (Text ''A:Code'') (columns example_grades) = Some 0
      \<and> series_position (Text ''Note'') (columns example_grades) = Some 3
      \<and> (case original_data initial_state of None \<Rightarrow> True
          | Some roster \<Rightarrow> Text ''A:Code'' \<in> set (columns roster))"
    by (simp add: example_pandas_def example_grades_def initial_state_def series_position_def
        label_positions_def Prenom_def upt_rec [of _ "numeral _"] upt_rec [of _ "Suc _"])
  from unparsable_values_missing_and_counted
      [THEN conjunct2, THEN conjunct2, THEN mp, OF g]
  obtain cleaned anomalies where c:
      "cleaned = coerce_column example_pandas 3 (coerce_column example_pandas 0 example_grades)"
      "process_csv example_pandas initial_state (Csv_file example_grades)
         = ([], Some (cleaned, anomalies))"
      "\<forall>k. (Missing_notes k \<in> set anomalies)
             = (0 < k \<and> k = length (filter isna (column_values cleaned 3)))"
      "\<forall>k. (Invalid_codes k \<in> set anomalies)
             = (0 < k \<and> k = length (filter isna (column_values cleaned 0)))"
    by blast
  have cl: "cleaned = example_cleaned"
    unfolding c(1) by (rule example_cleaned_coerced)
  have "Missing_notes 2 \<in> set anomalies" "Invalid_codes 1 \<in> set anomalies"
    using c(3,4) by (simp_all add: cl v)
  with c(2) cl
  have 3: "\<exists>anomalies. process_csv example_pandas initial_state (Csv_file example_grades)
                       = ([], Some (example_cleaned, anomalies))
         \<and> Missing_notes 2 \<in> set anomalies \<and> Invalid_codes 1 \<in> set anomalies"
    by blast
  from 1 2 3 v show ?thesis by simp
qed

text \<open>
  Claim C9. In the anomaly list of a grade file that \<open>process_csv\<close> accepts, the
  out-of-range entry is present exactly when some score that is present as a number
  is below 0 or above 20: a missing score, absent in the file or coerced from an
  unparsable text, never sets it.
\<close>

theorem missing_score_never_out_of_range:
  "process_csv pd st up = (msgs, Some (cleaned, anomalies))
     \<and> series_position (Text ''Note'') (columns cleaned) = Some n
   \<longrightarrow> (Notes_out_of_range \<in> set anomalies)
         = (\<exists>x. Num x \<in> set (column_values cleaned n) \<and> (x < 0 \<or> 20 < x))"
proof
  assume a: "process_csv pd st up = (msgs, Some (cleaned, anomalies))
     \<and> series_position (Text ''Note'') (columns cleaned) = Some n"
  then obtain df c n' absent where s:
      "series_position (Text ''Note'') (columns df) = Some n'"
      "cleaned = coerce_column pd n' (coerce_column pd c df)"
      "check_original st (column_values cleaned c) = Some absent"
      "anomalies = check_columns (column_values cleaned n') (column_values cleaned c) @ absent"
    using process_csv_success_shape [of pd st up msgs cleaned anomalies] by auto
  have "n' = n"
    using a s(1) by (simp add: s(2))
  moreover have "absent = [] \<or> (\<exists>k. 0 < k \<and> absent = [Absent_from_csv k])"
    using check_original_entries [OF s(3)] .
  ultimately show "(Notes_out_of_range \<in> set anomalies)
         = (\<exists>x. Num x \<in> set (column_values cleaned n) \<and> (x < 0 \<or> 20 < x))"
    by (auto simp: s(4) Notes_out_of_range_in_check_columns)
qed

theorem missing_score_never_out_of_range_witness:
  "series_position (Text ''Note'') (columns example_cleaned) = Some 3
   \<and> \<not> (\<exists>x. Num x \<in> set (column_values example_cleaned 3) \<and> (x < 0 \<or> 20 < x))"
proof -
  have p: "series_position (Text ''Note'') (columns example_cleaned) = Some 3"
    by (simp add: example_cleaned_def series_position_def label_positions_def Prenom_def
        upt_rec [of _ "numeral _"] upt_rec [of _ "Suc _"])
  have h: "process_csv example_pandas initial_state (Csv_file example_grades)
             = ([], Some (example_cleaned, [Missing_notes 2, Invalid_codes 1]))
           \<and> series_position (Text ''Note'') (columns example_cleaned) = Some 3"
    using p by (simp add: example_grades_processed)
  show ?thesis
    using p missing_score_never_out_of_range [THEN mp, OF h] by simp
qed

section \<open>Properties of the cross-check with the roster\<close>

lemma isna_iff: "isna x = (x = NaN)"
  by (cases x) auto

lemma py_eq_iff: "py_eq x y = (x \<noteq> NaN \<and> x = y)"
  by (cases x; cases y) auto

lemma py_in_iff: "py_in x s = (x \<noteq> NaN \<and> x \<in> set s)"
  by (auto simp: py_in_def list_ex_iff py_eq_iff)

lemma set_set_add_all: "set (set_add_all s xs) = set s \<union> set xs"
  by (induction xs arbitrary: s) (auto simp: py_in_iff)

lemma filter_isna_set_add_all:
  "filter isna (set_add_all s xs) = filter isna s @ filter isna xs"
  by (induction xs arbitrary: s) (auto simp: py_in_iff isna_iff)

lemma distinct_set_add_all:
  "distinct (filter (\<lambda>x. \<not> isna x) s) \<Longrightarrow>
     distinct (filter (\<lambda>x. \<not> isna x) (set_add_all s xs))"
  by (induction xs arbitrary: s) (auto simp: py_in_iff isna_iff)

lemma set_py_set: "set (py_set xs) = set xs"
  by (simp add: py_set_def set_set_add_all)

lemma filter_isna_py_set: "filter isna (py_set xs) = filter isna xs"
  by (simp add: py_set_def filter_isna_set_add_all)

lemma distinct_py_set: "distinct (filter (\<lambda>x. \<not> isna x) (py_set xs))"
  by (simp add: py_set_def distinct_set_add_all)

lemma length_filter_split:
  "length (filter P xs) = length (filter (\<lambda>x. P x \<and> Q x) xs) + length (filter (\<lambda>x. P x \<and> \<not> Q x) xs)"
  by (induction xs) auto

lemma missing_codes_count:
  "length (py_diff (py_set values) (py_set (dropna code)))
     = length (filter isna values) + card {x \<in> set values. x \<noteq> NaN \<and> x \<notin> set code}"
proof -
  let ?a = "py_set values"
  have keep: "\<And>x. (\<not> py_in x (py_set (dropna code))) = (x = NaN \<or> x \<notin> set code)"
    by (auto simp: py_in_iff set_py_set dropna_def isna_iff)
  have "length (py_diff ?a (py_set (dropna code)))
          = length (filter (\<lambda>x. x = NaN \<or> x \<notin> set code) ?a)"
    by (simp add: py_diff_def keep)
  also have "\<dots> = length (filter (\<lambda>x. (x = NaN \<or> x \<notin> set code) \<and> isna x) ?a)
                  + length (filter (\<lambda>x. (x = NaN \<or> x \<notin> set code) \<and> \<not> isna x) ?a)"
    by (rule length_filter_split)
  also have "filter (\<lambda>x. (x = NaN \<or> x \<notin> set code) \<and> isna x) ?a = filter isna ?a"
    by (rule filter_cong) (auto simp: isna_iff)
  also have "filter (\<lambda>x. (x = NaN \<or> x \<notin> set code) \<and> \<not> isna x) ?a
               = filter (\<lambda>x. x \<notin> set code) (filter (\<lambda>x. \<not> isna x) ?a)"
    by (auto simp: isna_iff intro: filter_cong)
  also have "length (filter (\<lambda>x. x \<notin> set code) (filter (\<lambda>x. \<not> isna x) ?a))
               = card (set (filter (\<lambda>x. x \<notin> set code) (filter (\<lambda>x. \<not> isna x) ?a)))"
    by (rule distinct_card [symmetric]) (intro distinct_filter distinct_py_set)
  also have "set (filter (\<lambda>x. x \<notin> set code) (filter (\<lambda>x. \<not> isna x) ?a))
               = {x \<in> set values. x \<noteq> NaN \<and> x \<notin> set code}"
    by (auto simp: set_py_set isna_iff)
  finally show ?thesis
    by (simp add: filter_isna_py_set)
qed

lemma series_position_iter_getitem:
  "series_position l (columns f) = Some k \<Longrightarrow> iter_getitem f l = Some (column_values f k)"
  by (auto simp: series_position_def iter_getitem_def split: list.splits if_splits)

lemma check_original_count:
  assumes "original_data st = Some roster"
    "series_position (Text ''A:Code'') (columns roster) = Some k"
  shows "check_original st code
           = Some (let m = length (filter isna (column_values roster k))
                         + card {x \<in> set (column_values roster k). x \<noteq> NaN \<and> x \<notin> set code}
                   in if 0 < m then [Absent_from_csv m] else [])"
proof -
  let ?d = "py_diff (py_set (column_values roster k)) (py_set (dropna code))"
  have "check_original st code
          = Some (if ?d \<noteq> [] then [Absent_from_csv (length ?d)] else [])"
    using assms by (simp add: check_original_def series_position_iter_getitem Let_def)
  moreover have "(?d \<noteq> []) = (0 < length ?d)"
    by simp
  ultimately show ?thesis
    by (simp only: missing_codes_count Let_def)
qed

lemma example_grades3_processed:
  "process_csv example_pandas example_state3 (Csv_file example_grades3)
     = ([], Some (example_cleaned3, [Missing_notes 1, Notes_out_of_range, Absent_from_csv 1]))"
  by (simp add: process_csv_def example_grades3_def example_cleaned3_def example_state3_def
      example_roster3_def example_eval)

lemma example_sheet4_processed:
  "process_excel example_pandas initial_state (Excel_file example_sheet4)
     = (example_state4, [Warning_invalid_codes 1], Some (example_roster4, take 2 example_sheet4))"
  by (simp add: process_excel_def example_pandas_def example_sheet4_def example_roster4_def
      example_state4_def initial_state_def
      required_terms_def Prenom_def find_header_row_def row_has_terms_def Let_def empty_def
      rename_code_def series_position_def label_positions_def coerce_column_def cell_at_def
      upt_rec [of _ "numeral _"] upt_rec [of _ "Suc _"])

lemma example_grades3_roster4_processed:
  "process_csv example_pandas example_state4 (Csv_file example_grades3)
     = ([], Some (example_cleaned3, [Missing_notes 1, Notes_out_of_range, Absent_from_csv 2]))"
  by (simp add: process_csv_def example_grades3_def example_cleaned3_def example_state4_def
      example_roster4_def example_eval)

lemma process_csv_anomalies:
  assumes "process_csv pd st up = (msgs, Some (cleaned, anomalies))"
    "series_position (Text ''Note'') (columns cleaned) = Some n"
    "series_position (Text ''A:Code'') (columns cleaned) = Some c"
    "original_data st = Some roster"
    "series_position (Text ''A:Code'') (columns roster) = Some k"
  shows "anomalies
           = (if 0 < length (filter isna (column_values cleaned n))
              then [Missing_notes (length (filter isna (column_values cleaned n)))] else [])
           @ (if \<exists>x. Num x \<in> set (column_values cleaned n) \<and> (x < 0 \<or> 20 < x)
              then [Notes_out_of_range] else [])
           @ (if 0 < length (filter isna (column_values cleaned c))
              then [Invalid_codes (length (filter isna (column_values cleaned c)))] else [])
           @ (if 0 < length (filter isna (column_values roster k))
                      + card {x \<in> set (column_values roster k).
                                x \<noteq> NaN \<and> x \<notin> set (column_values cleaned c)}
              then [Absent_from_csv
                      (length (filter isna (column_values roster k))
                       + card {x \<in> set (column_values roster k).
                                 x \<noteq> NaN \<and> x \<notin> set (column_values cleaned c)})]
              else [])"
proof -
  from assms(1) obtain df c' n' absent where s:
      "series_position (Text ''A:Code'') (columns df) = Some c'"
      "series_position (Text ''Note'') (columns df) = Some n'"
      "cleaned = coerce_column pd n' (coerce_column pd c' df)"
      "check_original st (column_values cleaned c') = Some absent"
      "anomalies = check_columns (column_values cleaned n') (column_values cleaned c') @ absent"
    using process_csv_success_shape [of pd st up msgs cleaned anomalies] by auto
  have n: "n' = n" and c: "c' = c"
    using assms(2,3) s(1,2) by (simp_all add: s(3))
  have "absent = (if 0 < length (filter isna (column_values roster k))
                      + card {x \<in> set (column_values roster k).
                                x \<noteq> NaN \<and> x \<notin> set (column_values cleaned c)}
              then [Absent_from_csv
                      (length (filter isna (column_values roster k))
                       + card {x \<in> set (column_values roster k).
                                 x \<noteq> NaN \<and> x \<notin> set (column_values cleaned c)})]
              else [])"
    using s(4) check_original_count [OF assms(4,5), of "column_values cleaned c"]
    by (simp add: c Let_def)
  then show ?thesis
    unfolding s(5) n c check_columns_def list_ex_isna list_ex_lt_num list_ex_gt_num
    by (simp only: ex_disj_distrib conj_disj_distribL append_assoc)
qed

text \<open>
  Claim C4, on the code. The four checks of \<open>process_csv\<close> are evaluated one after the
  other and each adds its own entry (\<open>process_csv_anomalies\<close> gives the whole list).
  The grade file \<open>example_grades3\<close> has one missing score and one score of 21, and its
  identifiers are 1 and 2. With the roster 1, 2, 3 the list is the count 1 of missing
  scores, the out-of-range flag and the count 1 of absent identifiers. With the roster
  of \<open>example_sheet4\<close>, which has the same identifiers and one more row without
  identifier, the identifier 3 is still the only one absent from the grade file, and
  \<open>process_csv\<close> reports 2: the row without identifier is counted, because the set of
  the roster's identifiers is built without \<^verbatim>\<open>dropna()\<close>.
\<close>

theorem roster_without_identifier_counted_in_scenario:
  "process_excel example_pandas initial_state (Excel_file example_sheet4)
     = (example_state4, [Warning_invalid_codes 1], Some (example_roster4, take 2 example_sheet4))
   \<and> column_values example_roster4 0 = [Num 1, Num 2, Num 3, NaN]
   \<and> column_values example_cleaned3 0 = [Num 1, Num 2]
   \<and> column_values example_cleaned3 3 = [NaN, Num 21]
   \<and> process_csv example_pandas example_state4 (Csv_file example_grades3)
       = ([], Some (example_cleaned3, [Missing_notes 1, Notes_out_of_range, Absent_from_csv 2]))
   \<and> process_csv example_pandas example_state3 (Csv_file example_grades3)
       = ([], Some (example_cleaned3, [Missing_notes 1, Notes_out_of_range, Absent_from_csv 1]))"
proof (intro conjI)
  show "process_excel example_pandas initial_state (Excel_file example_sheet4)
     = (example_state4, [Warning_invalid_codes 1], Some (example_roster4, take 2 example_sheet4))"
    by (rule example_sheet4_processed)
  show "column_values example_roster4 0 = [Num 1, Num 2, Num 3, NaN]"
    by (simp add: example_roster4_def column_values_def cell_at_def)
  show "column_values example_cleaned3 0 = [Num 1, Num 2]"
    by (simp add: example_cleaned3_def column_values_def cell_at_def)
  show "column_values example_cleaned3 3 = [NaN, Num 21]"
    by (simp add: example_cleaned3_def column_values_def cell_at_def)
  show "process_csv example_pandas example_state4 (Csv_file example_grades3)
       = ([], Some (example_cleaned3, [Missing_notes 1, Notes_out_of_range, Absent_from_csv 2]))"
    by (rule example_grades3_roster4_processed)
  show "process_csv example_pandas example_state3 (Csv_file example_grades3)
       = ([], Some (example_cleaned3, [Missing_notes 1, Notes_out_of_range, Absent_from_csv 1]))"
    by (rule example_grades3_processed)
qed

lemma example_grades_one_processed:
  "process_csv example_pandas example_loaded (Csv_file example_grades_one)
     = ([], Some (example_cleaned_one, [Absent_from_csv 2]))"
  by (simp add: process_csv_def example_grades_one_def example_cleaned_one_def
      example_loaded_def example_roster_def example_eval)

text \<open>
  Claim C5, on the code. The roster of \<open>example_sheet\<close> has the identifiers 1,
  missing, missing; the grade file has the identifier 1. Every roster identifier that
  is not missing is in the grade file, and \<open>process_csv\<close> reports 2 roster
  identifiers absent from the grade file: the set of the roster's identifiers is built
  without \<^verbatim>\<open>dropna()\<close>, so each missing identifier of the roster is counted
  (\<open>check_original_count\<close> gives the count in general).
\<close>

theorem roster_missing_identifiers_counted_absent:
  "process_excel example_pandas initial_state (Excel_file example_sheet)
     = (example_loaded, [Warning_invalid_codes 2], Some (example_roster, take 3 example_sheet))
   \<and> column_values example_roster 0 = [Num 1, NaN, NaN]
   \<and> column_values example_cleaned_one 0 = [Num 1]
   \<and> process_csv example_pandas example_loaded (Csv_file example_grades_one)
     = ([], Some (example_cleaned_one, [Absent_from_csv 2]))"
proof (intro conjI)
  show "process_excel example_pandas initial_state (Excel_file example_sheet)
     = (example_loaded, [Warning_invalid_codes 2], Some (example_roster, take 3 example_sheet))"
    by (simp add: example_sheet_processed initial_state_def example_loaded_def)
  show "column_values example_roster 0 = [Num 1, NaN, NaN]"
    by (simp add: example_roster_def column_values_def cell_at_def)
  show "column_values example_cleaned_one 0 = [Num 1]"
    by (simp add: example_cleaned_one_def column_values_def cell_at_def)
  show "process_csv example_pandas example_loaded (Csv_file example_grades_one)
     = ([], Some (example_cleaned_one, [Absent_from_csv 2]))"
    by (rule example_grades_one_processed)
qed

section \<open>Properties of the Merger\<close>

lemma series_position_label_positions:
  "series_position l cols = Some j \<Longrightarrow> label_positions l cols = [j]"
  by (auto simp: series_position_def split: list.splits if_splits)

lemma final_df_unique_labels:
  assumes "original_data st = Some roster"
    "series_position (Text ''A:Code'') (columns roster) = Some k"
    "series_position (Text ''A:Code'') (columns cleaned) = Some c"
    "series_position (Text ''Note'') (columns cleaned) = Some n"
  shows "final_df st cleaned
           = Some (merge_left roster k (map (\<lambda>r. (cell_at r c, [cell_at r n])) (rows cleaned)) 1)"
  using assms by (simp add: final_df_def series_position_label_positions)

lemma write_row_apply:
  "write_row r cells sh (i, j) = (if i = r \<and> j < length cells then Some (cells ! j) else sh (i, j))"
  by (simp add: write_row_def)

lemma write_rows_apply:
  "write_rows r xs sh (i, j)
     = (if r \<le> i \<and> i < r + length xs \<and> j < length (xs ! (i - r))
        then Some (xs ! (i - r) ! j) else sh (i, j))"
proof (induction xs arbitrary: r sh)
  case Nil
  show ?case by auto
next
  case (Cons x xs)
  show ?case
  proof (cases "i = r")
    case True
    then show ?thesis
      unfolding write_rows.simps Cons.IH write_row_apply by simp
  next
    case False
    then have "r \<le> i \<Longrightarrow> (x # xs) ! (i - r) = xs ! (i - Suc r)"
      by (simp add: nth_Cons')
    with False show ?thesis
      unfolding write_rows.simps Cons.IH write_row_apply by auto
  qed
qed

lemma write_rows_no_cells:
  "list_all (\<lambda>r. r = []) rs \<Longrightarrow> write_rows r rs sh = sh"
proof (induction rs arbitrary: r sh)
  case Nil
  show ?case by simp
next
  case (Cons x xs)
  have "write_row r [] sh = sh"
    by (simp add: write_row_def)
  with Cons show ?case by simp
qed

lemma generate_final_excel_sheet:
  assumes "final_df st cleaned = Some final" "header_rows st = Some pre"
  shows "generate_final_excel st cleaned
           = ([], Some (write_rows (Suc (length pre)) (rows final)
                          (write_row (length pre) (columns final)
                             (write_rows 0 pre empty_sheet))))"
proof -
  have "(if \<not> raw_empty pre then to_excel False 0 [] pre empty_sheet else empty_sheet)
          = write_rows 0 pre empty_sheet"
    by (auto simp: raw_empty_def to_excel_def write_rows_no_cells)
  then show ?thesis
    using assms by (simp add: generate_final_excel_def Let_def to_excel_def)
qed

lemmas merge_eval =
  final_df_def merge_left_def merge_row_def merge_columns_def pad_def
  series_position_def label_positions_def cell_at_def column_values_def Prenom_def Let_def
  upt_rec [of _ "numeral _"] upt_rec [of _ "Suc _"]

lemma example_final_df3: "final_df example_state3 example_cleaned3 = Some example_merged3"
  by (simp add: example_state3_def example_roster3_def example_cleaned3_def
      example_merged3_def merge_eval)

lemma example_final_df_dup: "final_df example_state2 example_dup_cleaned = Some example_dup_merged"
  by (simp add: example_state2_def example_roster2_def example_dup_cleaned_def
      example_dup_merged_def merge_eval)

lemma example_dup_grades_processed:
  "process_csv example_pandas example_state2 (Csv_file example_dup_grades)
     = ([], Some (example_dup_cleaned, [Notes_out_of_range, Absent_from_csv 1]))"
  by (simp add: process_csv_def example_dup_grades_def example_dup_cleaned_def
      example_state2_def example_roster2_def example_eval)

lemma example_grades2_processed:
  "process_csv example_pandas example_state2 (Csv_file example_grades2)
     = ([], Some (example_cleaned2, [Notes_out_of_range]))"
  by (simp add: process_csv_def example_grades2_def example_cleaned2_def
      example_state2_def example_roster2_def example_eval)

lemma process_csv_final:
  assumes "process_csv pd st up = (msgs, Some (cleaned, anomalies))"
    "original_data st = Some roster"
    "series_position (Text ''A:Code'') (columns roster) = Some k"
    "header_rows st = Some pre"
  shows "final_df st cleaned \<noteq> None \<and> (\<exists>sheet. tab2 pd st up = ([], Some anomalies, Some sheet))"
proof -
  from assms(1) obtain df c n where s:
      "series_position (Text ''A:Code'') (columns df) = Some c"
      "series_position (Text ''Note'') (columns df) = Some n"
      "cleaned = coerce_column pd n (coerce_column pd c df)" "msgs = []"
    using process_csv_success_shape [of pd st up msgs cleaned anomalies] by auto
  have f: "final_df st cleaned
           = Some (merge_left roster k (map (\<lambda>r. (cell_at r c, [cell_at r n])) (rows cleaned)) 1)"
    using assms(2,3) s(1,2) by (intro final_df_unique_labels) (simp_all add: s(3))
  from generate_final_excel_sheet [OF f assms(4)] assms(1,2) s(4) f
  show ?thesis
    by (simp add: tab2_def)
qed

lemma example_unidentified_processed:
  "process_csv example_pandas example_state4 (Csv_file example_unidentified)
     = ([], Some (example_unidentified, [Invalid_codes 1, Absent_from_csv 3]))"
  by (simp add: process_csv_def example_unidentified_def example_state4_def
      example_roster4_def example_eval)

lemma example_final_df_unidentified:
  "final_df example_state4 example_unidentified = Some example_unidentified_merged"
  by (simp add: example_state4_def example_roster4_def example_unidentified_def
      example_unidentified_merged_def merge_eval)

lemma example_two_unidentified_processed:
  "process_csv example_pandas example_state3 (Csv_file example_two_unidentified)
     = ([], Some (example_two_unidentified,
                  [Notes_out_of_range, Invalid_codes 2, Absent_from_csv 2]))"
  by (simp add: process_csv_def example_two_unidentified_def example_state3_def
      example_roster3_def example_eval)

lemma merge_row_at_most_one:
  assumes "length (filter (\<lambda>kr. fst kr = cell_at l k) right) \<le> 1"
  shows "merge_row w k m right l
           = [pad w l @ (case filter (\<lambda>kr. fst kr = cell_at l k) right of
                           [] \<Rightarrow> replicate m NaN | kr # rest \<Rightarrow> snd kr)]"
proof (cases "filter (\<lambda>kr. fst kr = cell_at l k) right")
  case Nil
  then show ?thesis by (simp add: merge_row_def)
next
  case (Cons kr rest)
  with assms have "rest = []" by simp
  with Cons show ?thesis by (simp add: merge_row_def)
qed

lemma concat_map_singletons:
  "(\<And>l. l \<in> set ls \<Longrightarrow> f l = [g l]) \<Longrightarrow> concat (map f ls) = map g ls"
  by (induction ls) simp_all

lemma length_filter_key:
  "length (filter (\<lambda>kr. fst kr = x) (map (\<lambda>r. (cell_at r c, [cell_at r n])) rs))
     = count_list (map (\<lambda>r. cell_at r c) rs) x"
  by (induction rs) auto

lemma filter_single:
  "y \<in> set (filter P xs) \<Longrightarrow> length (filter P xs) \<le> 1 \<Longrightarrow> filter P xs = [y]"
  by (cases "filter P xs") auto

lemma count_list_0: "x \<notin> set xs \<Longrightarrow> count_list xs x = 0"
  by (induction xs) auto

text \<open>
  Claim C2, as stated, fails in two cases. When the grade file has two rows for one
  identifier: the roster of \<open>example_state2\<close> has 2 rows, the identifiers of the
  accepted grade file \<open>example_dup_grades\<close> are among the roster's, and the left join
  has 3 rows. When the roster and the grade file both have a row without identifier: in
  the left join of the roster 1, 2, 3, missing with the accepted grade file
  \<open>example_unidentified\<close>, whose only identifier is 1, the roster row without
  identifier carries the Note 7 of the grade row without identifier.
\<close>

theorem left_join_duplicate_identifier_counterexample:
  "process_csv example_pandas example_state2 (Csv_file example_dup_grades)
     = ([], Some (example_dup_cleaned, [Notes_out_of_range, Absent_from_csv 1]))
   \<and> set (column_values example_dup_cleaned 0) \<subseteq> set (column_values example_roster2 0)
   \<and> length (rows example_roster2) = 2
   \<and> final_df example_state2 example_dup_cleaned = Some example_dup_merged
   \<and> length (rows example_dup_merged) = 3
   \<and> process_csv example_pandas example_state4 (Csv_file example_unidentified)
     = ([], Some (example_unidentified, [Invalid_codes 1, Absent_from_csv 3]))
   \<and> column_values example_roster4 0 = [Num 1, Num 2, Num 3, NaN]
   \<and> column_values example_unidentified 0 = [Num 1, NaN]
   \<and> final_df example_state4 example_unidentified = Some example_unidentified_merged
   \<and> rows example_unidentified_merged ! 3 = [NaN, Text ''Durand'', Text ''Eve'', Num 7]"
proof (intro conjI)
  show "process_csv example_pandas example_state2 (Csv_file example_dup_grades)
     = ([], Some (example_dup_cleaned, [Notes_out_of_range, Absent_from_csv 1]))"
    by (rule example_dup_grades_processed)
  show "set (column_values example_dup_cleaned 0) \<subseteq> set (column_values example_roster2 0)"
    by (simp add: example_dup_cleaned_def example_roster2_def column_values_def cell_at_def)
  show "length (rows example_roster2) = 2"
    by (simp add: example_roster2_def)
  show "final_df example_state2 example_dup_cleaned = Some example_dup_merged"
    by (rule example_final_df_dup)
  show "length (rows example_dup_merged) = 3"
    by (simp add: example_dup_merged_def)
  show "process_csv example_pandas example_state4 (Csv_file example_unidentified)
     = ([], Some (example_unidentified, [Invalid_codes 1, Absent_from_csv 3]))"
    by (rule example_unidentified_processed)
  show "column_values example_roster4 0 = [Num 1, Num 2, Num 3, NaN]"
    by (simp add: example_roster4_def column_values_def cell_at_def)
  show "column_values example_unidentified 0 = [Num 1, NaN]"
    by (simp add: example_unidentified_def column_values_def cell_at_def)
  show "final_df example_state4 example_unidentified = Some example_unidentified_merged"
    by (rule example_final_df_unidentified)
  show "rows example_unidentified_merged ! 3 = [NaN, Text ''Durand'', Text ''Eve'', Num 7]"
    by (simp add: example_unidentified_merged_def eval_nat_numeral)
qed

text \<open>
  Claim C2, amended. For a stored roster of \<open>N\<close> rows and a grade frame in which no
  identifier of the roster occurs in two rows, and which has no row without identifier
  when the roster has one, the left join of \<open>generate_final_excel\<close> has exactly \<open>N\<close>
  rows, in the order of the roster: a roster row whose identifier is the identifier of
  a grade row is followed by the Note of that row, and a roster row whose identifier
  is not in the grade frame is followed by a missing Note. Anomalies never prevent the
  merge: whenever \<open>process_csv\<close> returns a frame, with any anomaly list, and a roster
  and a preamble are stored, the join exists and the second tab yields the anomalies
  and a final file.
\<close>

theorem left_join_keeps_every_roster_row:
  "(original_data st = Some roster
      \<and> series_position (Text ''A:Code'') (columns roster) = Some k
      \<and> series_position (Text ''A:Code'') (columns cleaned) = Some c
      \<and> series_position (Text ''Note'') (columns cleaned) = Some n
      \<and> (\<forall>x\<in>set (column_values roster k).
            x \<noteq> NaN \<longrightarrow> count_list (column_values cleaned c) x \<le> 1)
      \<and> (NaN \<notin> set (column_values roster k) \<or> NaN \<notin> set (column_values cleaned c))
    \<longrightarrow> (\<exists>final. final_df st cleaned = Some final
           \<and> length (rows final) = length (rows roster)
           \<and> (\<forall>i<length (rows roster). \<forall>r\<in>set (rows cleaned).
                 cell_at r c = cell_at (rows roster ! i) k
                 \<longrightarrow> rows final ! i
                       = pad (length (columns roster)) (rows roster ! i) @ [cell_at r n])
           \<and> (\<forall>i<length (rows roster).
                 cell_at (rows roster ! i) k \<notin> set (column_values cleaned c)
                 \<longrightarrow> rows final ! i = pad (length (columns roster)) (rows roster ! i) @ [NaN])))
   \<and> (process_csv pd st up = (msgs, Some (cleaned, anomalies))
        \<and> original_data st = Some roster
        \<and> series_position (Text ''A:Code'') (columns roster) = Some k
        \<and> header_rows st = Some pre
      \<longrightarrow> final_df st cleaned \<noteq> None
          \<and> (\<exists>sheet. tab2 pd st up = ([], Some anomalies, Some sheet)))"
proof (intro conjI impI)
  assume a: "original_data st = Some roster
      \<and> series_position (Text ''A:Code'') (columns roster) = Some k
      \<and> series_position (Text ''A:Code'') (columns cleaned) = Some c
      \<and> series_position (Text ''Note'') (columns cleaned) = Some n
      \<and> (\<forall>x\<in>set (column_values roster k).
            x \<noteq> NaN \<longrightarrow> count_list (column_values cleaned c) x \<le> 1)
      \<and> (NaN \<notin> set (column_values roster k) \<or> NaN \<notin> set (column_values cleaned c))"
  let ?right = "map (\<lambda>r. (cell_at r c, [cell_at r n])) (rows cleaned)"
  let ?w = "length (columns roster)"
  let ?matches = "\<lambda>l. filter (\<lambda>kr. fst kr = cell_at l k) ?right"
  let ?row = "\<lambda>l. pad ?w l @ (case ?matches l of [] \<Rightarrow> replicate 1 NaN | kr # rest \<Rightarrow> snd kr)"
  let ?final = "merge_left roster k ?right 1"
  have f: "final_df st cleaned = Some ?final"
    using a by (simp add: final_df_unique_labels)
  have one: "length (?matches l) \<le> 1" if l: "l \<in> set (rows roster)" for l
  proof -
    have m: "cell_at l k \<in> set (column_values roster k)"
      using l by (simp add: column_values_def)
    show ?thesis
    proof (cases "cell_at l k = NaN")
      case True
      with m a have "NaN \<notin> set (column_values cleaned c)" by auto
      then have "count_list (map (\<lambda>r. cell_at r c) (rows cleaned)) (cell_at l k) = 0"
        using True by (intro count_list_0) (simp add: column_values_def)
      then show ?thesis unfolding length_filter_key by simp
    next
      case False
      with m a have "count_list (column_values cleaned c) (cell_at l k) \<le> 1" by blast
      then show ?thesis unfolding length_filter_key column_values_def by simp
    qed
  qed
  have rs: "rows ?final = map ?row (rows roster)"
    unfolding merge_left_def
    by (simp del: One_nat_def) (intro concat_map_singletons merge_row_at_most_one one)
  have 1: "length (rows ?final) = length (rows roster)"
    unfolding rs by simp
  have 2: "\<forall>i<length (rows roster). \<forall>r\<in>set (rows cleaned).
             cell_at r c = cell_at (rows roster ! i) k
             \<longrightarrow> rows ?final ! i = pad ?w (rows roster ! i) @ [cell_at r n]"
  proof (intro allI impI ballI)
    fix i r
    assume i: "i < length (rows roster)" and r: "r \<in> set (rows cleaned)"
      and e: "cell_at r c = cell_at (rows roster ! i) k"
    have "(cell_at r c, [cell_at r n]) \<in> set ?right"
      using r by (simp add: image_iff) blast
    then have "(cell_at r c, [cell_at r n]) \<in> set (?matches (rows roster ! i))"
      using e by simp
    moreover have "length (?matches (rows roster ! i)) \<le> 1"
      using i by (intro one) simp
    ultimately have "?matches (rows roster ! i) = [(cell_at r c, [cell_at r n])]"
      by (rule filter_single)
    with i show "rows ?final ! i = pad ?w (rows roster ! i) @ [cell_at r n]"
      unfolding rs by simp
  qed
  have 3: "\<forall>i<length (rows roster).
             cell_at (rows roster ! i) k \<notin> set (column_values cleaned c)
             \<longrightarrow> rows ?final ! i = pad ?w (rows roster ! i) @ [NaN]"
  proof (intro allI impI)
    fix i
    assume i: "i < length (rows roster)"
      and e: "cell_at (rows roster ! i) k \<notin> set (column_values cleaned c)"
    have "\<And>r. r \<in> set (rows cleaned) \<Longrightarrow> cell_at r c \<noteq> cell_at (rows roster ! i) k"
      using e by (metis (no_types, lifting) column_values_def image_eqI list.set_map)
    then have "?matches (rows roster ! i) = []"
      by (simp add: filter_empty_conv)
    with i show "rows ?final ! i = pad ?w (rows roster ! i) @ [NaN]"
      unfolding rs by simp
  qed
  from f 1 2 3
  show "\<exists>final. final_df st cleaned = Some final
           \<and> length (rows final) = length (rows roster)
           \<and> (\<forall>i<length (rows roster). \<forall>r\<in>set (rows cleaned).
                 cell_at r c = cell_at (rows roster ! i) k
                 \<longrightarrow> rows final ! i
                       = pad (length (columns roster)) (rows roster ! i) @ [cell_at r n])
           \<and> (\<forall>i<length (rows roster).
                 cell_at (rows roster ! i) k \<notin> set (column_values cleaned c)
                 \<longrightarrow> rows final ! i = pad (length (columns roster)) (rows roster ! i) @ [NaN])"
    by blast
next
  assume b: "process_csv pd st up = (msgs, Some (cleaned, anomalies))
        \<and> original_data st = Some roster
        \<and> series_position (Text ''A:Code'') (columns roster) = Some k
        \<and> header_rows st = Some pre"
  then have p: "final_df st cleaned \<noteq> None
      \<and> (\<exists>sheet. tab2 pd st up = ([], Some anomalies, Some sheet))"
    using process_csv_final [of pd st up msgs cleaned anomalies roster k pre] by simp
  from p show "final_df st cleaned \<noteq> None" by simp
  from p show "\<exists>sheet. tab2 pd st up = ([], Some anomalies, Some sheet)" by simp
qed

theorem left_join_keeps_every_roster_row_witness:
  "process_csv example_pandas example_state3 (Csv_file example_two_unidentified)
     = ([], Some (example_two_unidentified,
                  [Notes_out_of_range, Invalid_codes 2, Absent_from_csv 2]))
   \<and> column_values example_roster3 0 = [Num 1, Num 2, Num 3]
   \<and> column_values example_two_unidentified 0 = [Num 2, NaN, NaN]
   \<and> (\<exists>final. final_df example_state3 example_two_unidentified = Some final
        \<and> length (rows final) = 3
        \<and> rows final ! 0 = [Num 1, Text ''Dupont'', Text ''Luc'', NaN]
        \<and> rows final ! 1 = [Num 2, Text ''Martin'', Text ''Zoe'', Num 21]
        \<and> rows final ! 2 = [Num 3, Text ''Petit'', Text ''Lea'', NaN])
   \<and> process_csv example_pandas example_state2 (Csv_file example_grades2)
       = ([], Some (example_cleaned2, [Notes_out_of_range]))
   \<and> (\<exists>sheet. tab2 example_pandas example_state2 (Csv_file example_grades2)
                 = ([], Some [Notes_out_of_range], Some sheet))"
proof -
  have p: "series_position (Text ''A:Code'') (columns example_roster3) = Some 0"
      "series_position (Text ''A:Code'') (columns example_two_unidentified) = Some 0"
      "series_position (Text ''Note'') (columns example_two_unidentified) = Some 3"
      "series_position (Text ''A:Code'') (columns example_roster2) = Some 0"
    by (simp_all add: example_roster3_def example_two_unidentified_def example_roster2_def
        series_position_def label_positions_def Prenom_def
        upt_rec [of _ "numeral _"] upt_rec [of _ "Suc _"])
  have v: "column_values example_roster3 0 = [Num 1, Num 2, Num 3]"
      "column_values example_two_unidentified 0 = [Num 2, NaN, NaN]"
    by (simp_all add: example_roster3_def example_two_unidentified_def column_values_def
        cell_at_def)
  have h: "original_data example_state3 = Some example_roster3
      \<and> series_position (Text ''A:Code'') (columns example_roster3) = Some 0
      \<and> series_position (Text ''A:Code'') (columns example_two_unidentified) = Some 0
      \<and> series_position (Text ''Note'') (columns example_two_unidentified) = Some 3
      \<and> (\<forall>x\<in>set (column_values example_roster3 0).
            x \<noteq> NaN \<longrightarrow> count_list (column_values example_two_unidentified 0) x \<le> 1)
      \<and> (NaN \<notin> set (column_values example_roster3 0)
          \<or> NaN \<notin> set (column_values example_two_unidentified 0))"
    using p by (simp add: v) (simp add: example_state3_def)
  from left_join_keeps_every_roster_row [THEN conjunct1, THEN mp, OF h]
  obtain final where f:
      "final_df example_state3 example_two_unidentified = Some final"
      "length (rows final) = length (rows example_roster3)"
      "\<forall>i<length (rows example_roster3). \<forall>r\<in>set (rows example_two_unidentified).
         cell_at r 0 = cell_at (rows example_roster3 ! i) 0
         \<longrightarrow> rows final ! i
               = pad (length (columns example_roster3)) (rows example_roster3 ! i)
                 @ [cell_at r 3]"
      "\<forall>i<length (rows example_roster3).
         cell_at (rows example_roster3 ! i) 0 \<notin> set (column_values example_two_unidentified 0)
         \<longrightarrow> rows final ! i
               = pad (length (columns example_roster3)) (rows example_roster3 ! i) @ [NaN]"
    by blast
  have 1: "length (rows final) = 3"
    using f(2) by (simp add: example_roster3_def)
  have 2: "rows final ! 1 = [Num 2, Text ''Martin'', Text ''Zoe'', Num 21]"
    using f(3) [THEN spec, of 1]
    by (simp add: example_roster3_def example_two_unidentified_def cell_at_def pad_def)
  have 3: "rows final ! 0 = [Num 1, Text ''Dupont'', Text ''Luc'', NaN]"
      "rows final ! 2 = [Num 3, Text ''Petit'', Text ''Lea'', NaN]"
    using f(4) [THEN spec, of 0] f(4) [THEN spec, of 2]
    by (simp_all add: v) (simp_all add: example_roster3_def cell_at_def pad_def)
  have g: "process_csv example_pandas example_state2 (Csv_file example_grades2)
             = ([], Some (example_cleaned2, [Notes_out_of_range]))
      \<and> original_data example_state2 = Some example_roster2
      \<and> series_position (Text ''A:Code'') (columns example_roster2) = Some 0
      \<and> header_rows example_state2 = Some (take 3 example_sheet)"
    using p by (simp add: example_grades2_processed) (simp add: example_state2_def)
  from f(1) 1 2 3 g v example_two_unidentified_processed
    left_join_keeps_every_roster_row [THEN conjunct2, THEN mp, OF g, THEN conjunct2]
  show ?thesis by blast
qed

text \<open>
  Claim C3. With a stored preamble of \<open>k\<close> rows and the joined frame,
  \<open>generate_final_excel\<close> writes a sheet in which rows 0 to \<open>k - 1\<close> hold exactly the
  cells of the preamble rows, from column 0 and with nothing after them (no label row
  and no index column), row \<open>k\<close> holds exactly the labels of the joined frame, and row
  \<open>k + 1 + i\<close> holds exactly the cells of row \<open>i\<close> of the joined frame. For the
  preamble of three rows of \<open>example_sheet\<close>, the three rows are at rows 0 to 2 and
  the joined table starts at row 3.
\<close>

theorem export_layout:
  "final_df st cleaned = Some final \<and> header_rows st = Some pre
   \<longrightarrow> (\<exists>sheet. generate_final_excel st cleaned = ([], Some sheet)
          \<and> (\<forall>i<length pre. \<forall>j.
                sheet (i, j) = (if j < length (pre ! i) then Some (pre ! i ! j) else None))
          \<and> (\<forall>j. sheet (length pre, j)
                = (if j < length (columns final) then Some (columns final ! j) else None))
          \<and> (\<forall>i<length (rows final). \<forall>j.
                sheet (Suc (length pre) + i, j)
                  = (if j < length (rows final ! i) then Some (rows final ! i ! j) else None)))"
proof
  assume a: "final_df st cleaned = Some final \<and> header_rows st = Some pre"
  let ?sheet = "write_rows (Suc (length pre)) (rows final)
                  (write_row (length pre) (columns final) (write_rows 0 pre empty_sheet))"
  have g: "generate_final_excel st cleaned = ([], Some ?sheet)"
    using a by (simp add: generate_final_excel_sheet)
  have 1: "\<forall>i<length pre. \<forall>j.
             ?sheet (i, j) = (if j < length (pre ! i) then Some (pre ! i ! j) else None)"
    by (simp add: write_rows_apply write_row_apply empty_sheet_def)
  have 2: "\<forall>j. ?sheet (length pre, j)
             = (if j < length (columns final) then Some (columns final ! j) else None)"
    by (simp add: write_rows_apply write_row_apply empty_sheet_def)
  have 3: "\<forall>i<length (rows final). \<forall>j.
             ?sheet (Suc (length pre) + i, j)
               = (if j < length (rows final ! i) then Some (rows final ! i ! j) else None)"
    by (simp add: write_rows_apply write_row_apply empty_sheet_def)
  from g 1 2 3
  show "\<exists>sheet. generate_final_excel st cleaned = ([], Some sheet)
          \<and> (\<forall>i<length pre. \<forall>j.
                sheet (i, j) = (if j < length (pre ! i) then Some (pre ! i ! j) else None))
          \<and> (\<forall>j. sheet (length pre, j)
                = (if j < length (columns final) then Some (columns final ! j) else None))
          \<and> (\<forall>i<length (rows final). \<forall>j.
                sheet (Suc (length pre) + i, j)
                  = (if j < length (rows final ! i) then Some (rows final ! i ! j) else None))"
    by blast
qed

theorem export_layout_witness:
  "\<exists>sheet. generate_final_excel example_state3 example_cleaned3 = ([], Some sheet)
      \<and> sheet (0, 0) = Some (Text ''Licence 1'') \<and> sheet (0, 3) = None
      \<and> sheet (1, 0) = Some (Text ''code'') \<and> sheet (2, 1) = Some (Num 2024)
      \<and> sheet (3, 0) = Some (Text ''A:Code'') \<and> sheet (3, 3) = Some (Text ''Note'')
      \<and> sheet (4, 0) = Some (Num 1) \<and> sheet (5, 3) = Some (Num 21)
      \<and> sheet (6, 3) = Some NaN"
proof -
  have h: "final_df example_state3 example_cleaned3 = Some example_merged3
      \<and> header_rows example_state3 = Some (take 3 example_sheet)"
    by (simp add: example_final_df3) (simp add: example_state3_def)
  from export_layout [THEN mp, OF h] obtain sheet where s:
      "generate_final_excel example_state3 example_cleaned3 = ([], Some sheet)"
      "\<forall>i<length (take 3 example_sheet). \<forall>j.
         sheet (i, j) = (if j < length (take 3 example_sheet ! i)
                         then Some (take 3 example_sheet ! i ! j) else None)"
      "\<forall>j. sheet (length (take 3 example_sheet), j)
         = (if j < length (columns example_merged3) then Some (columns example_merged3 ! j)
            else None)"
      "\<forall>i<length (rows example_merged3). \<forall>j.
         sheet (Suc (length (take 3 example_sheet)) + i, j)
           = (if j < length (rows example_merged3 ! i) then Some (rows example_merged3 ! i ! j)
              else None)"
    by blast
  have p: "sheet (0, 0) = Some (Text ''Licence 1'')" "sheet (0, 3) = None"
      "sheet (1, 0) = Some (Text ''code'')" "sheet (2, 1) = Some (Num 2024)"
    using s(2) [THEN spec, of 0] s(2) [THEN spec, of 1] s(2) [THEN spec, of 2]
    by (simp_all add: example_sheet_def eval_nat_numeral)
  have c: "sheet (3, 0) = Some (Text ''A:Code'')" "sheet (3, 3) = Some (Text ''Note'')"
    using s(3) by (simp_all add: example_sheet_def example_merged3_def eval_nat_numeral)
  have r: "sheet (4, 0) = Some (Num 1)" "sheet (5, 3) = Some (Num 21)"
      "sheet (6, 3) = Some NaN"
    using s(4) [THEN spec, of 0] s(4) [THEN spec, of 1] s(4) [THEN spec, of 2]
    by (simp_all add: example_sheet_def example_merged3_def eval_nat_numeral)
  from s(1) p c r show ?thesis by blast
qed

end
